theory Spec2Isabelle
  imports Main
begin

section \<open>JavaScript values\<close>

text \<open>
  The handlers receive unstructured payloads and test them with JavaScript truthiness
  (\<^verbatim>\<open>!roomId\<close>), build keys with template literals and read properties that may be
  absent. Numbers that occur as identifiers and counts are integers here.
\<close>

datatype jsval =
    JUndefined
  | JNull
  | JBool bool
  | JNum int
  | JStr string
  | JArr "jsval list"
  | JObj "(string \<times> jsval) list"

datatype js_error = TypeError | ReferenceError | StoreError | ServiceError

fun truthy :: "jsval \<Rightarrow> bool" where
  "truthy JUndefined = False"
| "truthy JNull = False"
| "truthy (JBool b) = b"
| "truthy (JNum n) = (n \<noteq> 0)"
| "truthy (JStr s) = (s \<noteq> [])"
| "truthy (JArr xs) = True"
| "truthy (JObj fs) = True"

text \<open>\<^verbatim>\<open>a || b\<close>\<close>

definition js_or :: "jsval \<Rightarrow> jsval \<Rightarrow> jsval" where
  "js_or a b = (if truthy a then a else b)"

text \<open>
  Property read \<^verbatim>\<open>v.name\<close> (and one field of a destructuring pattern): a TypeError on
  \<^verbatim>\<open>undefined\<close> and \<^verbatim>\<open>null\<close>, \<^verbatim>\<open>undefined\<close> for a property that is not there.
\<close>

fun get_prop :: "jsval \<Rightarrow> string \<Rightarrow> js_error + jsval" where
  "get_prop JUndefined k = Inl TypeError"
| "get_prop JNull k = Inl TypeError"
| "get_prop (JObj fs) k = Inr (case map_of fs k of None \<Rightarrow> JUndefined | Some v \<Rightarrow> v)"
| "get_prop v k = Inr JUndefined"

text \<open>Optional chaining \<^verbatim>\<open>v?.name\<close>.\<close>

fun get_prop_opt :: "jsval \<Rightarrow> string \<Rightarrow> jsval" where
  "get_prop_opt (JObj fs) k = (case map_of fs k of None \<Rightarrow> JUndefined | Some v \<Rightarrow> v)"
| "get_prop_opt v k = JUndefined"

definition digit_char :: "nat \<Rightarrow> char" where
  "digit_char d = char_of (48 + d)"

fun nat_digits :: "nat \<Rightarrow> string" where
  "nat_digits n = (if n < 10 then [digit_char n] else nat_digits (n div 10) @ [digit_char (n mod 10)])"

declare nat_digits.simps [simp del]

definition int_digits :: "int \<Rightarrow> string" where
  "int_digits i = (if i < 0 then CHR ''-'' # nat_digits (nat (- i)) else nat_digits (nat i))"

fun join_with :: "string \<Rightarrow> string list \<Rightarrow> string" where
  "join_with sep [] = []"
| "join_with sep [x] = x"
| "join_with sep (x # y # ys) = x @ sep @ join_with sep (y # ys)"

text \<open>String conversion, as a template literal \<^verbatim>\<open>`${v}`\<close> performs it.\<close>

fun js_to_string :: "jsval \<Rightarrow> string" where
  "js_to_string JUndefined = ''undefined''"
| "js_to_string JNull = ''null''"
| "js_to_string (JBool b) = (if b then ''true'' else ''false'')"
| "js_to_string (JNum n) = int_digits n"
| "js_to_string (JStr s) = s"
| "js_to_string (JArr xs) =
     join_with '','' (map (\<lambda>x. if x = JUndefined \<or> x = JNull then [] else js_to_string x) xs)"
| "js_to_string (JObj fs) = ''[object Object]''"

text \<open>The socket.io room of a chat room: \<^verbatim>\<open>`room:${roomId}`\<close>.\<close>

definition room_key :: "jsval \<Rightarrow> string" where
  "room_key roomId = ''room:'' @ js_to_string roomId"

section \<open>The durable store (Redis sets)\<close>

text \<open>
  The Presence Directory lives in Redis sets. A key holds the members of its set in the
  order the store returns them; a set that becomes empty loses its key. \<open>rlog\<close> records
  every command the client issued, so that "falls back to the store" and "issues a
  deletion" are statements about the state. \<open>connected\<close> is false when
  \<^verbatim>\<open>getRedisClient()\<close> or a command would throw.
\<close>

datatype redis_cmd =
    SADD string string
  | SREM string string
  | SMEMBERS string
  | SCARD string
  | SISMEMBER string string
  | DEL string

record redis =
  connected :: bool
  rsets :: "string \<Rightarrow> string list option"
  rlog :: "redis_cmd list"

definition sAdd :: "string \<Rightarrow> string \<Rightarrow> redis \<Rightarrow> (js_error + unit) \<times> redis" where
  "sAdd k m r =
     (if \<not> connected r then (Inl StoreError, r)
      else (Inr (),
            r\<lparr>rsets := (rsets r)(k \<mapsto> (case rsets r k of None \<Rightarrow> [m]
                                           | Some ms \<Rightarrow> if m \<in> set ms then ms else ms @ [m])),
              rlog := rlog r @ [SADD k m]\<rparr>))"

definition sRem :: "string \<Rightarrow> string \<Rightarrow> redis \<Rightarrow> (js_error + unit) \<times> redis" where
  "sRem k m r =
     (if \<not> connected r then (Inl StoreError, r)
      else (Inr (),
            r\<lparr>rsets := (rsets r)(k := (case rsets r k of None \<Rightarrow> None
                                          | Some ms \<Rightarrow> if removeAll m ms = [] then None
                                                       else Some (removeAll m ms))),
              rlog := rlog r @ [SREM k m]\<rparr>))"

definition sMembers :: "string \<Rightarrow> redis \<Rightarrow> (js_error + string list) \<times> redis" where
  "sMembers k r =
     (if \<not> connected r then (Inl StoreError, r)
      else (Inr (case rsets r k of None \<Rightarrow> [] | Some ms \<Rightarrow> ms), r\<lparr>rlog := rlog r @ [SMEMBERS k]\<rparr>))"

definition sCard :: "string \<Rightarrow> redis \<Rightarrow> (js_error + nat) \<times> redis" where
  "sCard k r =
     (if \<not> connected r then (Inl StoreError, r)
      else (Inr (case rsets r k of None \<Rightarrow> 0 | Some ms \<Rightarrow> length ms), r\<lparr>rlog := rlog r @ [SCARD k]\<rparr>))"

definition sIsMember :: "string \<Rightarrow> string \<Rightarrow> redis \<Rightarrow> (js_error + bool) \<times> redis" where
  "sIsMember k m r =
     (if \<not> connected r then (Inl StoreError, r)
      else (Inr (case rsets r k of None \<Rightarrow> False | Some ms \<Rightarrow> m \<in> set ms),
            r\<lparr>rlog := rlog r @ [SISMEMBER k m]\<rparr>))"

definition del :: "string \<Rightarrow> redis \<Rightarrow> (js_error + unit) \<times> redis" where
  "del k r =
     (if \<not> connected r then (Inl StoreError, r)
      else (Inr (), r\<lparr>rsets := (rsets r)(k := None), rlog := rlog r @ [DEL k]\<rparr>))"

section \<open>utils/socketStore.js: the Connection Registry\<close>

text \<open>
  A namespace's adapter maps a room key to the ids of the sockets in it; \<open>ns_sockets\<close>
  maps a socket id to the identity the socket carries.
\<close>

record sock_ident =
  si_userId :: jsval
  si_username :: jsval

record namespace =
  ns_rooms :: "string \<Rightarrow> string list option"
  ns_sockets :: "string \<Rightarrow> sock_ident option"

text \<open>\<^verbatim>\<open>io.of(name)\<close> gives the namespace of that name.\<close>

type_synonym io_server = "string \<Rightarrow> namespace"

record socketStore =
  ioInstance :: "io_server option"
  chatNamespace :: "namespace option"
  isReady :: bool

definition socketStore_init :: socketStore where
  "socketStore_init = \<lparr>ioInstance = None, chatNamespace = None, isReady = False\<rparr>"

definition setIo :: "io_server \<Rightarrow> socketStore \<Rightarrow> socketStore" where
  "setIo io st = \<lparr>ioInstance = Some io, chatNamespace = Some (io ''/chat''), isReady = True\<rparr>"

definition getIo :: "socketStore \<Rightarrow> io_server option" where
  "getIo st = ioInstance st"

definition getChatNamespace :: "socketStore \<Rightarrow> namespace option" where
  "getChatNamespace st = chatNamespace st"

definition isSocketReady :: "socketStore \<Rightarrow> bool" where
  "isSocketReady st = (isReady st \<and> chatNamespace st \<noteq> None)"

text \<open>\<^verbatim>\<open>null\<close> is \<open>None\<close>: the registry is not ready.\<close>

definition getSocketRoomCount :: "socketStore \<Rightarrow> jsval \<Rightarrow> nat option" where
  "getSocketRoomCount st roomId =
     (if \<not> isReady st then None
      else (case chatNamespace st of
              None \<Rightarrow> None
            | Some ns \<Rightarrow>
                Some (case ns_rooms ns (room_key roomId) of None \<Rightarrow> 0 | Some sids \<Rightarrow> length sids)))"

record room_user =
  ru_id :: jsval
  ru_username :: jsval
  ru_socketId :: string

fun collect_users :: "namespace \<Rightarrow> string list \<Rightarrow> room_user list" where
  "collect_users ns [] = []"
| "collect_users ns (sid # sids) =
     (case ns_sockets ns sid of
        None \<Rightarrow> collect_users ns sids
      | Some s \<Rightarrow>
          if truthy (si_username s)
          then \<lparr>ru_id = si_userId s, ru_username = si_username s, ru_socketId = sid\<rparr> # collect_users ns sids
          else collect_users ns sids)"

definition getSocketRoomUsers :: "socketStore \<Rightarrow> jsval \<Rightarrow> room_user list option" where
  "getSocketRoomUsers st roomId =
     (if \<not> isReady st then None
      else (case chatNamespace st of
              None \<Rightarrow> None
            | Some ns \<Rightarrow>
                (case ns_rooms ns (room_key roomId) of
                   None \<Rightarrow> Some []
                 | Some sids \<Rightarrow> Some (collect_users ns sids))))"

section \<open>utils/redisPresence.js: the Presence Directory\<close>

text \<open>
  The identifiers the module binds to key builders. A name the module does not bind is a
  ReferenceError where it is evaluated.
\<close>

definition ROOM_PARTICIPANTS_KEY :: "jsval \<Rightarrow> string" where
  "ROOM_PARTICIPANTS_KEY roomId = ''room:'' @ js_to_string roomId @ '':participants''"

definition ROOM_SYSTEM_KEY :: "jsval \<Rightarrow> string" where
  "ROOM_SYSTEM_KEY roomId = ''room:system:'' @ js_to_string roomId"

definition presence_scope :: "string \<Rightarrow> (jsval \<Rightarrow> string) option" where
  "presence_scope name =
     (if name = ''ROOM_PARTICIPANTS_KEY'' then Some ROOM_PARTICIPANTS_KEY
      else if name = ''ROOM_SYSTEM_KEY'' then Some ROOM_SYSTEM_KEY
      else None)"

definition call_key :: "string \<Rightarrow> jsval \<Rightarrow> js_error + string" where
  "call_key name roomId =
     (case presence_scope name of None \<Rightarrow> Inl ReferenceError | Some f \<Rightarrow> Inr (f roomId))"

text \<open>\<^verbatim>\<open>getRedisClient()\<close>\<close>

definition getRedisClient :: "redis \<Rightarrow> js_error + unit" where
  "getRedisClient r = (if connected r then Inr () else Inl StoreError)"

definition addUserToRoom :: "jsval \<Rightarrow> string \<Rightarrow> redis \<Rightarrow> bool \<times> redis" where
  "addUserToRoom roomId username r =
     (case getRedisClient r of
        Inl e \<Rightarrow> (False, r)
      | Inr c \<Rightarrow>
          (case call_key ''ROOM_PARTICIPANTS_KEY'' roomId of
             Inl e \<Rightarrow> (False, r)
           | Inr k \<Rightarrow> (case sAdd k username r of (Inl e, r') \<Rightarrow> (False, r') | (Inr u, r') \<Rightarrow> (True, r'))))"

definition removeUserFromRoom :: "jsval \<Rightarrow> string \<Rightarrow> redis \<Rightarrow> bool \<times> redis" where
  "removeUserFromRoom roomId username r =
     (case getRedisClient r of
        Inl e \<Rightarrow> (False, r)
      | Inr c \<Rightarrow>
          (case call_key ''ROOM_PARTICIPANTS_KEY'' roomId of
             Inl e \<Rightarrow> (False, r)
           | Inr k \<Rightarrow> (case sRem k username r of (Inl e, r') \<Rightarrow> (False, r') | (Inr u, r') \<Rightarrow> (True, r'))))"

definition isUserInRoom :: "jsval \<Rightarrow> string \<Rightarrow> redis \<Rightarrow> bool \<times> redis" where
  "isUserInRoom roomId username r =
     (case getRedisClient r of
        Inl e \<Rightarrow> (False, r)
      | Inr c \<Rightarrow>
          (case call_key ''ROOM_PARTICIPANTS_KEY'' roomId of
             Inl e \<Rightarrow> (False, r)
           | Inr k \<Rightarrow> (case sIsMember k username r of (Inl e, r') \<Rightarrow> (False, r') | (Inr b, r') \<Rightarrow> (b, r'))))"

text \<open>
  \<^verbatim>\<open>getRoomUsers\<close>: the registry first; the store only when the registry answers
  \<^verbatim>\<open>null\<close>. Every failure is caught and gives the empty list.
\<close>

definition getRoomUsers :: "socketStore \<Rightarrow> jsval \<Rightarrow> redis \<Rightarrow> jsval list \<times> redis" where
  "getRoomUsers st roomId r =
     (case getSocketRoomUsers st roomId of
        Some socketUsers \<Rightarrow> (map ru_username socketUsers, r)
      | None \<Rightarrow>
          (case getRedisClient r of
             Inl e \<Rightarrow> ([], r)
           | Inr c \<Rightarrow>
               (case sMembers (''room:'' @ js_to_string roomId @ '':participants'') r of
                  (Inl e, r') \<Rightarrow> ([], r')
                | (Inr usernames, r') \<Rightarrow> (map JStr usernames, r'))))"

text \<open>\<^verbatim>\<open>getRoomUserCount\<close>: the same order; a failure gives 0.\<close>

definition getRoomUserCount :: "socketStore \<Rightarrow> jsval \<Rightarrow> redis \<Rightarrow> nat \<times> redis" where
  "getRoomUserCount st roomId r =
     (case getSocketRoomCount st roomId of
        Some socketCount \<Rightarrow> (socketCount, r)
      | None \<Rightarrow>
          (case getRedisClient r of
             Inl e \<Rightarrow> (0, r)
           | Inr c \<Rightarrow>
               (case sCard (''room:'' @ js_to_string roomId @ '':participants'') r of
                  (Inl e, r') \<Rightarrow> (0, r')
                | (Inr n, r') \<Rightarrow> (n, r'))))"

text \<open>
  \<^verbatim>\<open>clearRoomUsers\<close>: the client is obtained, then the argument of \<^verbatim>\<open>client.del\<close> is
  evaluated, which calls the identifier \<^verbatim>\<open>ROOM_USERS_KEY\<close>; the \<^verbatim>\<open>catch\<close> branch
  returns false.
\<close>

definition clearRoomUsers :: "jsval \<Rightarrow> redis \<Rightarrow> bool \<times> redis" where
  "clearRoomUsers roomId r =
     (case getRedisClient r of
        Inl e \<Rightarrow> (False, r)
      | Inr c \<Rightarrow>
          (case call_key ''ROOM_USERS_KEY'' roomId of
             Inl e \<Rightarrow> (False, r)
           | Inr k \<Rightarrow> (case del k r of (Inl e, r') \<Rightarrow> (False, r') | (Inr u, r') \<Rightarrow> (True, r'))))"

section \<open>Handlers: effects and failures\<close>

text \<open>
  What a handler sends: \<^verbatim>\<open>socket.emit\<close> (to the requesting client),
  \<^verbatim>\<open>socket.to(room).emit\<close> (to the room's other sockets), \<^verbatim>\<open>io.to(room).emit\<close> (to
  the whole room) and \<^verbatim>\<open>io.emit\<close> (to everyone), each with the event name and its body;
  \<open>ForceDisconnect\<close> is \<^verbatim>\<open>oldSocket.disconnect(true)\<close>.
\<close>

datatype target = ToSelf | ToRoomOthers string | ToRoom string | ToAll | ToSocket string

datatype emission = Emit target string jsval | ForceDisconnect string

fun is_event :: "string \<Rightarrow> emission \<Rightarrow> bool" where
  "is_event name (Emit t ev body) = (ev = name)"
| "is_event name (ForceDisconnect sid) = False"

definition count_event :: "string \<Rightarrow> emission list \<Rightarrow> nat" where
  "count_event name es = length (filter (is_event name) es)"

text \<open>A JavaScript \<^verbatim>\<open>Set\<close> of payload values: objects and arrays are compared by
  identity, and every payload carries fresh ones, so they are never found.\<close>

fun is_ref :: "jsval \<Rightarrow> bool" where
  "is_ref (JArr xs) = True"
| "is_ref (JObj fs) = True"
| "is_ref v = False"

definition set_has :: "jsval set \<Rightarrow> jsval \<Rightarrow> bool" where
  "set_has S v = (\<not> is_ref v \<and> v \<in> S)"

definition set_add :: "jsval set \<Rightarrow> jsval \<Rightarrow> jsval set" where
  "set_add S v = insert v S"

definition set_delete :: "jsval set \<Rightarrow> jsval \<Rightarrow> jsval set" where
  "set_delete S v = (if is_ref v then S else S - {v})"

section \<open>events/roomEvents.js: join, rejoin, leave\<close>

text \<open>
  The state one socket's room handlers can reach: the socket's own fields
  (\<open>joinedRooms\<close> is undefined until the first join request that carries its identifiers), the adapter's rooms (the
  Connection Registry), the durable store (the Presence Directory), the grace timers of
  the process (of whatever module holds them: \<open>'t\<close>) and what has been emitted.
\<close>

record 't server =
  sid :: string
  joinedRooms :: "jsval set option"
  currentRoomId :: jsval
  adapter :: "string \<Rightarrow> string list option"
  store :: redis
  timers :: 't
  emitted :: "emission list"

text \<open>
  The collaborators the handlers call and this repository's sources do not hold
  (\<^verbatim>\<open>services/roomService\<close>, \<^verbatim>\<open>utils/presence\<close>, \<^verbatim>\<open>utils/redisUtils\<close>,
  \<^verbatim>\<open>utils/xpLeveling\<close>) are parameters. Each is handed identifiers only, never the socket:
  it may read the state, returns a value or throws, and leaves a new durable store and,
  through whatever it calls of the module that holds them, new grace timers
  (\<^verbatim>\<open>roomService.leaveRoom\<close> is the call the handler comments "Remove from Redis"; it is
  handed the \<^verbatim>\<open>userId\<close> the timers are keyed by).
  The handlers' calls of \<^verbatim>\<open>logger\<close> have no effect on this state and are left out.
  \<open>iso_now\<close> is \<^verbatim>\<open>new Date().toISOString()\<close>.
\<close>

type_synonym 't collaborator = "'t server \<Rightarrow> (js_error + jsval) \<times> (redis \<times> 't)"

record 't room_env =
  svc_joinRoom :: "jsval \<Rightarrow> jsval \<Rightarrow> jsval \<Rightarrow> 't collaborator"
  svc_leaveRoom :: "jsval \<Rightarrow> jsval \<Rightarrow> jsval \<Rightarrow> 't collaborator"
  presence_getRoomUserCount :: "jsval \<Rightarrow> 't collaborator"
  getRoomParticipants :: "jsval \<Rightarrow> 't collaborator"
  getUserLevel :: "jsval \<Rightarrow> 't collaborator"
  iso_now :: string

type_synonym ('s, 'a) act = "'s \<Rightarrow> (js_error + 'a) \<times> 's"

definition ret :: "'a \<Rightarrow> ('s, 'a) act" where
  "ret x s = (Inr x, s)"

definition bnd :: "('s, 'a) act \<Rightarrow> ('a \<Rightarrow> ('s, 'b) act) \<Rightarrow> ('s, 'b) act" where
  "bnd m f s = (case m s of (Inl e, s') \<Rightarrow> (Inl e, s') | (Inr x, s') \<Rightarrow> f x s')"

definition lift :: "js_error + 'a \<Rightarrow> ('s, 'a) act" where
  "lift v s = (v, s)"

definition await :: "'t collaborator \<Rightarrow> ('t server, jsval) act" where
  "await f s = (case f s of (v, r', t') \<Rightarrow> (v, s\<lparr>store := r', timers := t'\<rparr>))"

definition emit :: "emission \<Rightarrow> ('t server, unit) act" where
  "emit e s = (Inr (), s\<lparr>emitted := emitted s @ [e]\<rparr>)"

definition modify :: "('s \<Rightarrow> 's) \<Rightarrow> ('s, unit) act" where
  "modify f s = (Inr (), f s)"

definition gets :: "('s \<Rightarrow> 'a) \<Rightarrow> ('s, 'a) act" where
  "gets f s = (Inr (f s), s)"

text \<open>\<^verbatim>\<open>socket.join(room)\<close> and \<^verbatim>\<open>socket.leave(room)\<close> on the adapter.\<close>

definition socket_join :: "string \<Rightarrow> 't server \<Rightarrow> 't server" where
  "socket_join room s =
     s\<lparr>adapter := (adapter s)(room \<mapsto> (case adapter s room of None \<Rightarrow> [sid s]
                                        | Some sids \<Rightarrow> if sid s \<in> set sids then sids else sids @ [sid s]))\<rparr>"

definition socket_leave :: "string \<Rightarrow> 't server \<Rightarrow> 't server" where
  "socket_leave room s =
     s\<lparr>adapter := (adapter s)(room := (case adapter s room of None \<Rightarrow> None
                                       | Some sids \<Rightarrow> if removeAll (sid s) sids = [] then None
                                                      else Some (removeAll (sid s) sids)))\<rparr>"

definition required_error :: emission where
  "required_error =
     Emit ToSelf ''error'' (JObj [(''message'', JStr ''roomId, userId, and username are required'')])"

definition failed_error :: "string \<Rightarrow> emission" where
  "failed_error msg = Emit ToSelf ''error'' (JObj [(''message'', JStr msg)])"

text \<open>\<^verbatim>\<open>broadcastUserEntered\<close>\<close>

definition broadcastUserEntered ::
  "'t room_env \<Rightarrow> jsval \<Rightarrow> jsval \<Rightarrow> jsval \<Rightarrow> jsval \<Rightarrow> ('t server, unit) act" where
  "broadcastUserEntered env roomId username userId userCount =
     emit (Emit (ToRoomOthers (room_key roomId)) ''room:userEntered''
       (JObj [(''username'', username), (''userId'', userId),
              (''message'', JStr (js_to_string username @ '' has entered the chat'')),
              (''userCount'', userCount), (''timestamp'', JStr (iso_now env))]))"

definition userListUpdate :: "jsval \<Rightarrow> jsval \<Rightarrow> jsval \<Rightarrow> ('t server, unit) act" where
  "userListUpdate roomId userCount participants =
     emit (Emit (ToRoom (room_key roomId)) ''room:userListUpdate''
       (JObj [(''userCount'', userCount), (''participants'', participants)]))"

text \<open>The body of the \<^verbatim>\<open>joinRoom\<close> handler's \<^verbatim>\<open>try\<close> block, statement by statement.\<close>

definition joinRoom_try :: "'t room_env \<Rightarrow> jsval \<Rightarrow> ('t server, unit) act" where
  "joinRoom_try env data =
     bnd (lift (get_prop data ''roomId'')) (\<lambda>roomId.
     bnd (lift (get_prop data ''userId'')) (\<lambda>userId.
     bnd (lift (get_prop data ''username'')) (\<lambda>username.
       if \<not> truthy roomId \<or> \<not> truthy userId \<or> \<not> truthy username then emit required_error
       else
         bnd (modify (\<lambda>s. if joinedRooms s = None then s\<lparr>joinedRooms := Some {}\<rparr> else s)) (\<lambda>u0.
         bnd (gets (\<lambda>s. case joinedRooms s of None \<Rightarrow> True | Some S \<Rightarrow> \<not> set_has S roomId)) (\<lambda>isFirstJoin.
         bnd (await (svc_joinRoom env roomId userId username)) (\<lambda>result.
         bnd (lift (get_prop result ''success'')) (\<lambda>success.
           if \<not> truthy success then
             bnd (lift (get_prop result ''error'')) (\<lambda>err.
               emit (Emit ToSelf ''joinRoom:error'' (JObj [(''error'', err)])))
           else
             bnd (modify (socket_join (room_key roomId))) (\<lambda>u1.
             bnd (modify (\<lambda>s. s\<lparr>currentRoomId := roomId\<rparr>)) (\<lambda>u2.
             bnd (modify (\<lambda>s. s\<lparr>joinedRooms :=
                     (case joinedRooms s of None \<Rightarrow> None | Some S \<Rightarrow> Some (set_add S roomId))\<rparr>)) (\<lambda>u3.
             bnd (await (presence_getRoomUserCount env roomId)) (\<lambda>userCount.
             bnd (await (getRoomParticipants env roomId)) (\<lambda>participants.
             bnd (await (getUserLevel env userId)) (\<lambda>levelData.
             bnd (lift (get_prop result ''room'')) (\<lambda>room.
             bnd (lift (get_prop levelData ''level'')) (\<lambda>level.
             bnd (emit (Emit ToSelf ''joinRoom:success''
                    (JObj [(''roomId'', roomId), (''room'', room), (''userCount'', userCount),
                           (''participants'', participants), (''level'', level)]))) (\<lambda>u4.
             bnd (if isFirstJoin then broadcastUserEntered env roomId username userId userCount
                  else ret ()) (\<lambda>u5.
               userListUpdate roomId userCount participants)))))))))))))))))"

text \<open>The handler: the \<^verbatim>\<open>catch\<close> branch reports whatever the body threw.\<close>

definition joinRoom :: "'t room_env \<Rightarrow> jsval \<Rightarrow> 't server \<Rightarrow> 't server" where
  "joinRoom env data s =
     (case joinRoom_try env data s of
        (Inl e, s') \<Rightarrow> snd (emit (failed_error ''Failed to join room'') s')
      | (Inr u, s') \<Rightarrow> s')"

text \<open>\<^verbatim>\<open>rejoinRoom\<close>: \<^verbatim>\<open>silent\<close> takes its default only when the payload leaves it undefined.\<close>

definition rejoinRoom_try :: "'t room_env \<Rightarrow> jsval \<Rightarrow> ('t server, unit) act" where
  "rejoinRoom_try env data =
     bnd (lift (get_prop data ''roomId'')) (\<lambda>roomId.
     bnd (lift (get_prop data ''userId'')) (\<lambda>userId.
     bnd (lift (get_prop data ''username'')) (\<lambda>username.
     bnd (lift (get_prop data ''silent'')) (\<lambda>silent0.
     bnd (ret (if silent0 = JUndefined then JBool True else silent0)) (\<lambda>silent.
       if \<not> truthy roomId \<or> \<not> truthy userId \<or> \<not> truthy username then emit required_error
       else
         bnd (await (svc_joinRoom env roomId userId username)) (\<lambda>result.
         bnd (lift (get_prop result ''success'')) (\<lambda>success.
           if \<not> truthy success then
             bnd (lift (get_prop result ''error'')) (\<lambda>err.
               emit (Emit ToSelf ''rejoinRoom:error'' (JObj [(''error'', err)])))
           else
             bnd (modify (socket_join (room_key roomId))) (\<lambda>u1.
             bnd (modify (\<lambda>s. s\<lparr>currentRoomId := roomId\<rparr>)) (\<lambda>u2.
             bnd (await (presence_getRoomUserCount env roomId)) (\<lambda>userCount.
             bnd (await (getRoomParticipants env roomId)) (\<lambda>participants.
             bnd (lift (get_prop result ''room'')) (\<lambda>room.
             bnd (emit (Emit ToSelf ''rejoinRoom:success''
                    (JObj [(''roomId'', roomId), (''room'', room), (''userCount'', userCount),
                           (''participants'', participants)]))) (\<lambda>u4.
             bnd (if \<not> truthy silent then broadcastUserEntered env roomId username userId userCount
                  else ret ()) (\<lambda>u5.
               userListUpdate roomId userCount participants))))))))))))))"

definition rejoinRoom :: "'t room_env \<Rightarrow> jsval \<Rightarrow> 't server \<Rightarrow> 't server" where
  "rejoinRoom env data s =
     (case rejoinRoom_try env data s of
        (Inl e, s') \<Rightarrow> snd (emit (failed_error ''Failed to rejoin room'') s')
      | (Inr u, s') \<Rightarrow> s')"

text \<open>\<^verbatim>\<open>leaveRoom\<close>\<close>

definition leaveRoom_try :: "'t room_env \<Rightarrow> jsval \<Rightarrow> ('t server, unit) act" where
  "leaveRoom_try env data =
     bnd (lift (get_prop data ''roomId'')) (\<lambda>roomId.
     bnd (lift (get_prop data ''userId'')) (\<lambda>userId.
     bnd (lift (get_prop data ''username'')) (\<lambda>username.
       if \<not> truthy roomId \<or> \<not> truthy userId \<or> \<not> truthy username then emit required_error
       else
         bnd (modify (socket_leave (room_key roomId))) (\<lambda>u1.
         bnd (await (svc_leaveRoom env roomId userId username)) (\<lambda>left.
         bnd (modify (\<lambda>s. s\<lparr>joinedRooms :=
                 (case joinedRooms s of None \<Rightarrow> None | Some S \<Rightarrow> Some (set_delete S roomId))\<rparr>)) (\<lambda>u2.
         bnd (modify (\<lambda>s. s\<lparr>currentRoomId := JNull\<rparr>)) (\<lambda>u3.
         bnd (await (presence_getRoomUserCount env roomId)) (\<lambda>userCount.
         bnd (await (getRoomParticipants env roomId)) (\<lambda>participants.
         bnd (emit (Emit ToSelf ''leaveRoom:success'' (JObj [(''roomId'', roomId)]))) (\<lambda>u4.
         bnd (emit (Emit (ToRoomOthers (room_key roomId)) ''room:userLeft''
                (JObj [(''username'', username), (''userId'', userId),
                       (''message'', JStr (js_to_string username @ '' has left the chat'')),
                       (''userCount'', userCount), (''timestamp'', JStr (iso_now env))]))) (\<lambda>u5.
           userListUpdate roomId userCount participants)))))))))))"

definition leaveRoom :: "'t room_env \<Rightarrow> jsval \<Rightarrow> 't server \<Rightarrow> 't server" where
  "leaveRoom env data s =
     (case leaveRoom_try env data s of
        (Inl e, s') \<Rightarrow> snd (emit (failed_error ''Failed to leave room'') s')
      | (Inr u, s') \<Rightarrow> s')"

section \<open>Timers of the runtime\<close>

text \<open>
  \<^verbatim>\<open>setTimeout(callback, delay)\<close> arms a timeout and returns its handle; the runtime runs
  the callback once, not before \<open>t_due\<close>; \<^verbatim>\<open>clearTimeout(handle)\<close> disarms it and does
  nothing to a timeout that has fired. A timeout carries the variables its callback
  captured.
\<close>

record 'c timeout =
  t_handle :: nat
  t_due :: nat
  t_closure :: 'c

definition clearTimeout :: "nat \<Rightarrow> 'c timeout list \<Rightarrow> 'c timeout list" where
  "clearTimeout h ts = filter (\<lambda>t. t_handle t \<noteq> h) ts"

type_synonym service = "redis \<Rightarrow> (js_error + jsval) \<times> redis"

section \<open>events/systemEvents.js, the grace-period module\<close>

text \<open>
  The module that exports \<^verbatim>\<open>addDisconnectGraceTimer\<close>, \<^verbatim>\<open>cancelDisconnectTimer\<close> and
  \<^verbatim>\<open>getRemainingGracePeriod\<close>. Its state is the map \<^verbatim>\<open>disconnectGraceTimers\<close>, the
  timeouts it has armed, the expiry callbacks that have started and are suspended at an
  \<^verbatim>\<open>await\<close>, the clock and the store its callbacks write to.
\<close>

definition DISCONNECT_GRACE_PERIOD :: nat where
  "DISCONNECT_GRACE_PERIOD = 1800000"

record timer_info =
  ti_timer :: nat
  ti_username :: jsval
  ti_roomId :: jsval
  ti_startedAt :: nat

record grace_closure =
  gc_userId :: jsval
  gc_username :: jsval
  gc_roomId :: jsval

record grace =
  g_timers :: "jsval \<Rightarrow> timer_info option"
  g_pending :: "grace_closure timeout list"
  g_running :: "grace_closure list"
  g_next :: nat
  g_now :: nat
  g_store :: redis

text \<open>
  \<^verbatim>\<open>presence.removeUserFromRoom\<close> and \<^verbatim>\<open>setPresence\<close> come from modules the sources do
  not hold; they are parameters.
\<close>

record grace_env =
  ge_removeUserFromRoom :: "jsval \<Rightarrow> jsval \<Rightarrow> jsval \<Rightarrow> service"
  ge_setPresence :: "jsval \<Rightarrow> string \<Rightarrow> service"

definition grace_init :: "redis \<Rightarrow> grace" where
  "grace_init r = \<lparr>g_timers = Map.empty, g_pending = [], g_running = [], g_next = 0, g_now = 0, g_store = r\<rparr>"

text \<open>\<^verbatim>\<open>addDisconnectGraceTimer(userId, username, roomId, duration = DISCONNECT_GRACE_PERIOD)\<close>\<close>

definition addDisconnectGraceTimer ::
  "jsval \<Rightarrow> jsval \<Rightarrow> jsval \<Rightarrow> nat option \<Rightarrow> grace \<Rightarrow> grace" where
  "addDisconnectGraceTimer userId username roomId duration0 g =
     (if g_timers g userId \<noteq> None then g
      else
        (let duration = (case duration0 of None \<Rightarrow> DISCONNECT_GRACE_PERIOD | Some d \<Rightarrow> d);
             timer = g_next g
         in g\<lparr>g_pending := g_pending g @
                  [\<lparr>t_handle = timer, t_due = g_now g + duration,
                    t_closure = \<lparr>gc_userId = userId, gc_username = username, gc_roomId = roomId\<rparr>\<rparr>],
               g_next := timer + 1,
               g_timers := (g_timers g)(userId \<mapsto>
                  \<lparr>ti_timer = timer, ti_username = username, ti_roomId = roomId,
                    ti_startedAt = g_now g\<rparr>)\<rparr>))"

text \<open>\<^verbatim>\<open>cancelDisconnectTimer(userId)\<close>\<close>

definition cancelDisconnectTimer :: "jsval \<Rightarrow> grace \<Rightarrow> bool \<times> grace" where
  "cancelDisconnectTimer userId g =
     (case g_timers g userId of
        Some timerInfo \<Rightarrow>
          (True, g\<lparr>g_pending := clearTimeout (ti_timer timerInfo) (g_pending g),
                   g_timers := (g_timers g)(userId := None)\<rparr>)
      | None \<Rightarrow> (False, g))"

text \<open>\<^verbatim>\<open>getRemainingGracePeriod(userId)\<close>\<close>

definition getRemainingGracePeriod :: "jsval \<Rightarrow> grace \<Rightarrow> int" where
  "getRemainingGracePeriod userId g =
     (case g_timers g userId of
        None \<Rightarrow> 0
      | Some timerInfo \<Rightarrow>
          max 0 (int DISCONNECT_GRACE_PERIOD - (int (g_now g) - int (ti_startedAt timerInfo))))"

text \<open>
  The expiry callback is an \<^verbatim>\<open>async\<close> function. When the runtime fires the timeout the
  callback starts and is suspended at its first \<^verbatim>\<open>await\<close> (\<open>expiry_start\<close>); other
  handlers run before it resumes. \<open>expiry_resume\<close> runs the oldest suspended callback to
  its end: the removal from the room when \<^verbatim>\<open>roomId\<close> is truthy (a failure there rejects
  the callback, which ends without its last statement), \<^verbatim>\<open>setPresence\<close> with its
  failure caught, and \<^verbatim>\<open>disconnectGraceTimers.delete(userId)\<close>.
\<close>

definition expiry_start :: "nat \<Rightarrow> grace \<Rightarrow> grace" where
  "expiry_start h g =
     (case find (\<lambda>t. t_handle t = h) (g_pending g) of
        None \<Rightarrow> g
      | Some t \<Rightarrow>
          if g_now g < t_due t then g
          else g\<lparr>g_pending := clearTimeout h (g_pending g),
                 g_running := g_running g @ [t_closure t]\<rparr>)"

definition expiry_body :: "grace_env \<Rightarrow> grace_closure \<Rightarrow> grace \<Rightarrow> grace" where
  "expiry_body env c g =
     (case (if truthy (gc_roomId c)
            then ge_removeUserFromRoom env (gc_roomId c) (gc_userId c) (gc_username c) (g_store g)
            else (Inr JUndefined, g_store g)) of
        (Inl e, r1) \<Rightarrow> g\<lparr>g_store := r1\<rparr>
      | (Inr v, r1) \<Rightarrow>
          (case ge_setPresence env (gc_username c) ''offline'' r1 of
             (w, r2) \<Rightarrow> g\<lparr>g_store := r2, g_timers := (g_timers g)(gc_userId c := None)\<rparr>))"

definition expiry_resume :: "grace_env \<Rightarrow> grace \<Rightarrow> grace" where
  "expiry_resume env g =
     (case g_running g of
        [] \<Rightarrow> g
      | c # cs \<Rightarrow> expiry_body env c (g\<lparr>g_running := cs\<rparr>))"

text \<open>What can happen to the module, one event after the other.\<close>

datatype grace_op =
    Start jsval jsval jsval
  | Cancel jsval
  | Elapse nat
  | Fire nat
  | Resume

fun grace_step :: "grace_env \<Rightarrow> grace_op \<Rightarrow> grace \<Rightarrow> grace" where
  "grace_step env (Start userId username roomId) g = addDisconnectGraceTimer userId username roomId None g"
| "grace_step env (Cancel userId) g = snd (cancelDisconnectTimer userId g)"
| "grace_step env (Elapse d) g = g\<lparr>g_now := g_now g + d\<rparr>"
| "grace_step env (Fire h) g = expiry_start h g"
| "grace_step env Resume g = expiry_resume env g"

fun grace_run :: "grace_env \<Rightarrow> grace_op list \<Rightarrow> grace \<Rightarrow> grace" where
  "grace_run env [] g = g"
| "grace_run env (x # xs) g = grace_run env xs (grace_step env x g)"

text \<open>The timeouts armed for a user.\<close>

definition armed_for :: "jsval \<Rightarrow> grace \<Rightarrow> grace_closure timeout list" where
  "armed_for userId g = filter (\<lambda>t. gc_userId (t_closure t) = userId) (g_pending g)"

section \<open>events/systemEvents_fix3.js\<close>

text \<open>Its \<^verbatim>\<open>handleDisconnect\<close> arms one timeout, 30000 ms ahead, whose callback aborts the
  controller.\<close>

definition fix3_handleDisconnect :: "nat \<Rightarrow> nat \<Rightarrow> unit timeout" where
  "fix3_handleDisconnect now h = \<lparr>t_handle = h, t_due = now + 30000, t_closure = ()\<rparr>"

section \<open>The AbortController variant of the timer map\<close>

text \<open>
  A second \<^verbatim>\<open>addDisconnectGraceTimer(userId, duration)\<close> with \<^verbatim>\<open>reconnectUser\<close>: each
  timer has an abort flag its callback checks before it logs the user out.
\<close>

record abort_info =
  ai_timer :: nat
  ai_controller :: nat

record abort_closure =
  ac_userId :: jsval
  ac_controller :: nat

record abort_state =
  a_timers :: "jsval \<Rightarrow> abort_info option"
  a_pending :: "abort_closure timeout list"
  a_aborted :: "nat list"
  a_next :: nat
  a_now :: nat
  a_logged_out :: "jsval list"

definition abort_init :: abort_state where
  "abort_init = \<lparr>a_timers = Map.empty, a_pending = [], a_aborted = [], a_next = 0, a_now = 0,
                  a_logged_out = []\<rparr>"

definition abort_addDisconnectGraceTimer :: "jsval \<Rightarrow> nat \<Rightarrow> abort_state \<Rightarrow> abort_state" where
  "abort_addDisconnectGraceTimer userId duration a =
     (let k = a_next a
      in a\<lparr>a_pending := a_pending a @
              [\<lparr>t_handle = k, t_due = a_now a + duration,
                t_closure = \<lparr>ac_userId = userId, ac_controller = k\<rparr>\<rparr>],
            a_next := k + 1,
            a_timers := (a_timers a)(userId \<mapsto> \<lparr>ai_timer = k, ai_controller = k\<rparr>)\<rparr>)"

definition reconnectUser :: "jsval \<Rightarrow> abort_state \<Rightarrow> abort_state" where
  "reconnectUser userId a =
     (case a_timers a userId of
        None \<Rightarrow> a
      | Some timerInfo \<Rightarrow>
          a\<lparr>a_aborted := a_aborted a @ [ai_controller timerInfo],
            a_pending := clearTimeout (ai_timer timerInfo) (a_pending a),
            a_timers := (a_timers a)(userId := None)\<rparr>)"

definition abort_expiry :: "nat \<Rightarrow> abort_state \<Rightarrow> abort_state" where
  "abort_expiry h a =
     (case find (\<lambda>t. t_handle t = h) (a_pending a) of
        None \<Rightarrow> a
      | Some t \<Rightarrow>
          if a_now a < t_due t then a
          else if ac_controller (t_closure t) \<in> set (a_aborted a)
          then a\<lparr>a_pending := clearTimeout h (a_pending a)\<rparr>
          else a\<lparr>a_pending := clearTimeout h (a_pending a),
                 a_logged_out := a_logged_out a @ [ac_userId (t_closure t)]\<rparr>)"

definition abort_armed_for :: "jsval \<Rightarrow> abort_state \<Rightarrow> abort_closure timeout list" where
  "abort_armed_for userId a = filter (\<lambda>t. ac_userId (t_closure t) = userId) (a_pending a)"

section \<open>events/systemEvents.js, the socket handler\<close>

text \<open>
  The module that registers \<^verbatim>\<open>authenticate\<close>, \<^verbatim>\<open>logout\<close> and \<^verbatim>\<open>disconnect\<close> on every
  socket and keeps its own \<^verbatim>\<open>disconnectGraceTimers\<close>, keyed by \<^verbatim>\<open>`${userId}`\<close>, whose
  values are the timeout handles. Its state also holds the fields the handlers read and
  write on each socket object, the ids of the connected sockets, the store and what has
  been emitted.
\<close>

definition handler_GRACE_PERIOD :: nat where
  "handler_GRACE_PERIOD = 30000"

record sock =
  sk_userId :: jsval
  sk_username :: jsval
  sk_logoutProcessed :: bool

record handler_closure =
  hc_key :: string
  hc_userId :: jsval
  hc_username :: jsval
  hc_sid :: string

record sys =
  h_timers :: "string \<Rightarrow> nat option"
  h_pending :: "handler_closure timeout list"
  h_next :: nat
  h_now :: nat
  h_socks :: "string \<Rightarrow> sock"
  h_connected :: "string list"
  h_store :: redis
  h_emitted :: "emission list"

text \<open>
  The functions of modules the sources do not hold (\<^verbatim>\<open>userService\<close>, \<^verbatim>\<open>roomService\<close>,
  \<^verbatim>\<open>utils/presence\<close>, \<^verbatim>\<open>utils/redisUtils\<close>, \<^verbatim>\<open>utils/xpLeveling\<close>,
  \<^verbatim>\<open>utils/roomPresenceTTL\<close>, \<^verbatim>\<open>utils/idGenerator\<close>) are one parameter, called by
  name with their arguments. \<open>io_sockets_is_map\<close> says whether \<^verbatim>\<open>io.sockets\<close> is a
  \<^verbatim>\<open>Map\<close> of the connected sockets.
\<close>

record sys_env =
  ext :: "string \<Rightarrow> jsval list \<Rightarrow> service"
  io_sockets_is_map :: bool
  sys_iso_now :: string

definition call_ext :: "sys_env \<Rightarrow> string \<Rightarrow> jsval list \<Rightarrow> (sys, jsval) act" where
  "call_ext env name args s = (case ext env name args (h_store s) of (v, r') \<Rightarrow> (v, s\<lparr>h_store := r'\<rparr>))"

definition on_store :: "(redis \<Rightarrow> (js_error + 'a) \<times> redis) \<Rightarrow> (sys, 'a) act" where
  "on_store f s = (case f (h_store s) of (v, r') \<Rightarrow> (v, s\<lparr>h_store := r'\<rparr>))"

definition sys_emit :: "emission \<Rightarrow> (sys, unit) act" where
  "sys_emit e s = (Inr (), s\<lparr>h_emitted := h_emitted s @ [e]\<rparr>)"

definition presence_offline :: "sys_env \<Rightarrow> jsval \<Rightarrow> emission" where
  "presence_offline env username =
     Emit ToAll ''presence:changed''
       (JObj [(''username'', username), (''status'', JStr ''offline''),
              (''timestamp'', JStr (sys_iso_now env))])"

text \<open>\<^verbatim>\<open>cancelDisconnectTimer\<close> of this module.\<close>

definition handler_cancelDisconnectTimer :: "jsval \<Rightarrow> sys \<Rightarrow> bool \<times> sys" where
  "handler_cancelDisconnectTimer userId s =
     (let timerKey = js_to_string userId
      in case h_timers s timerKey of
           Some h \<Rightarrow> (True, s\<lparr>h_pending := clearTimeout h (h_pending s),
                              h_timers := (h_timers s)(timerKey := None)\<rparr>)
         | None \<Rightarrow> (False, s))"

text \<open>\<^verbatim>\<open>[...new Set(xs)]\<close>: the first occurrence of each element, in order.\<close>

definition dedup :: "string list \<Rightarrow> string list" where
  "dedup xs = rev (remdups (rev xs))"

text \<open>One turn of \<^verbatim>\<open>handleLogout\<close>'s loop over the user's rooms.\<close>

definition logout_room ::
  "sys_env \<Rightarrow> jsval \<Rightarrow> jsval \<Rightarrow> jsval \<Rightarrow> jsval \<Rightarrow> string \<Rightarrow> (sys, unit) act" where
  "logout_room env actualUserId actualUsername userLevel userType roomId =
     bnd (call_ext env ''removeUserFromRoom'' [JStr roomId, actualUsername]) (\<lambda>u1.
     bnd (call_ext env ''removeRoomParticipant'' [JStr roomId, actualUsername]) (\<lambda>u2.
     bnd (on_store (sRem (''user:'' @ js_to_string actualUserId @ '':rooms'') roomId)) (\<lambda>u3.
     bnd (on_store (sRem (''user:'' @ js_to_string actualUserId @ '':activeRooms'') roomId)) (\<lambda>u4.
     bnd (on_store (del (''room:'' @ roomId @ '':user:'' @ js_to_string actualUserId))) (\<lambda>u5.
     bnd (call_ext env ''roomService.getRoomById'' [JStr roomId]) (\<lambda>room.
     bnd (call_ext env ''generateMessageId'' []) (\<lambda>messageId.
     bnd (sys_emit (Emit (ToRoom (''room:'' @ roomId)) ''chat:message''
            (JObj [(''id'', messageId), (''roomId'', JStr roomId),
                   (''username'', js_or (get_prop_opt room ''name'') (JStr ''Room'')),
                   (''message'', JStr (js_to_string actualUsername @ '' ['' @ js_to_string userLevel
                                        @ ''] has left'')),
                   (''timestamp'', JStr (sys_iso_now env)), (''type'', JStr ''presence''),
                   (''messageType'', JStr ''presence''), (''userType'', userType)]))) (\<lambda>u6.
     bnd (call_ext env ''getRoomUsersFromTTL'' [JStr roomId]) (\<lambda>updatedUsers.
     bnd (sys_emit (Emit (ToRoom (''room:'' @ roomId)) ''room:user:left''
            (JObj [(''roomId'', JStr roomId), (''username'', actualUsername),
                   (''userId'', actualUserId), (''users'', updatedUsers)]))) (\<lambda>u7.
     bnd (on_store (sMembers (''room:participants:'' @ roomId))) (\<lambda>updatedParticipants.
     bnd (sys_emit (Emit (ToRoom (''room:'' @ roomId)) ''room:participants:update''
            (JObj [(''roomId'', JStr roomId),
                   (''participants'', JArr (map JStr updatedParticipants))]))) (\<lambda>u8.
       sys_emit (Emit (ToRoom (''room:'' @ roomId)) ''room:currently:update''
            (JObj [(''roomId'', JStr roomId),
                   (''participants'', JStr (join_with '', '' updatedParticipants))]))))))))))))))"

fun logout_rooms ::
  "sys_env \<Rightarrow> jsval \<Rightarrow> jsval \<Rightarrow> jsval \<Rightarrow> jsval \<Rightarrow> string list \<Rightarrow> (sys, unit) act" where
  "logout_rooms env actualUserId actualUsername userLevel userType [] = ret ()"
| "logout_rooms env actualUserId actualUsername userLevel userType (roomId # roomIds) =
     bnd (logout_room env actualUserId actualUsername userLevel userType roomId) (\<lambda>u.
       logout_rooms env actualUserId actualUsername userLevel userType roomIds)"

text \<open>\<^verbatim>\<open>handleLogout\<close> on the socket \<open>sockId\<close>: the \<^verbatim>\<open>try\<close> block, then the handler with its
  \<^verbatim>\<open>catch\<close>.\<close>

definition handleLogout_try :: "sys_env \<Rightarrow> string \<Rightarrow> jsval \<Rightarrow> (sys, unit) act" where
  "handleLogout_try env sockId data =
     bnd (lift (get_prop (js_or data (JObj [])) ''userId'')) (\<lambda>userId.
     bnd (lift (get_prop (js_or data (JObj [])) ''username'')) (\<lambda>username.
     bnd (gets (\<lambda>s. js_or userId (sk_userId (h_socks s sockId)))) (\<lambda>actualUserId.
     bnd (gets (\<lambda>s. js_or username (sk_username (h_socks s sockId)))) (\<lambda>actualUsername.
       if truthy actualUserId \<and> truthy actualUsername then
         bnd (gets (\<lambda>s. sk_logoutProcessed (h_socks s sockId))) (\<lambda>processed.
           if processed then ret ()
           else
             bnd (modify (\<lambda>s. s\<lparr>h_socks := (h_socks s)(sockId := (h_socks s sockId)\<lparr>sk_logoutProcessed := True\<rparr>)\<rparr>)) (\<lambda>u1.
             bnd (sys_emit (presence_offline env actualUsername)) (\<lambda>u2.
             bnd (on_store (\<lambda>r. (getRedisClient r, r))) (\<lambda>u3.
             bnd (on_store (sMembers (''user:'' @ js_to_string actualUserId @ '':rooms''))) (\<lambda>activeRooms.
             bnd (on_store (sMembers (''user:'' @ js_to_string actualUserId @ '':activeRooms''))) (\<lambda>activeRooms2.
             bnd (ret (dedup (activeRooms @ activeRooms2))) (\<lambda>allRoomIds.
             bnd (if allRoomIds \<noteq> [] then
                    bnd (call_ext env ''getUserLevel'' [actualUserId]) (\<lambda>userLevelData.
                    bnd (call_ext env ''userService.getUserById'' [actualUserId]) (\<lambda>user.
                      logout_rooms env actualUserId actualUsername
                        (js_or (get_prop_opt userLevelData ''level'') (JNum 1))
                        (js_or (get_prop_opt user ''role'') (JStr ''normal'')) allRoomIds))
                  else ret ()) (\<lambda>u4.
             bnd (call_ext env ''removePresence'' [actualUsername]) (\<lambda>u5.
             bnd (call_ext env ''removeSession'' [actualUsername]) (\<lambda>u6.
             bnd (on_store (del (''user:'' @ js_to_string actualUserId @ '':rooms''))) (\<lambda>u7.
             bnd (on_store (del (''user:'' @ js_to_string actualUserId @ '':activeRooms''))) (\<lambda>u8.
             bnd (on_store (del (''user:'' @ js_to_string actualUserId @ '':ip''))) (\<lambda>u9.
               sys_emit (Emit (ToSocket sockId) ''logout:success'' JUndefined))))))))))))))
       else ret ()))))"

definition handleLogout :: "sys_env \<Rightarrow> string \<Rightarrow> jsval \<Rightarrow> sys \<Rightarrow> sys" where
  "handleLogout env sockId data s =
     (case handleLogout_try env sockId data s of
        (Inl e, s') \<Rightarrow>
          snd (sys_emit (Emit (ToSocket sockId) ''error'' (JObj [(''message'', JStr ''Logout failed'')])) s')
      | (Inr u, s') \<Rightarrow> s')"

text \<open>
  \<^verbatim>\<open>handleDisconnect(reason)\<close> on the socket \<open>sockId\<close>: nothing for a socket with no
  username; the logout at once for an explicit disconnect; else a timeout of
  \<^verbatim>\<open>DISCONNECT_GRACE_PERIOD\<close>, after the one the map holds for the key has been cleared.
\<close>

definition handleDisconnect :: "sys_env \<Rightarrow> string \<Rightarrow> string \<Rightarrow> sys \<Rightarrow> sys" where
  "handleDisconnect env sockId reason s =
     (if \<not> truthy (sk_username (h_socks s sockId)) then s
      else
        (let actualUsername = sk_username (h_socks s sockId);
             actualUserId = sk_userId (h_socks s sockId)
         in if reason = ''client namespace disconnect'' \<or> reason = ''server namespace disconnect''
            then handleLogout env sockId (JObj [(''userId'', actualUserId), (''username'', actualUsername)]) s
            else
              (let timerKey = js_to_string actualUserId;
                   cleared = (case h_timers s timerKey of
                                None \<Rightarrow> h_pending s
                              | Some h \<Rightarrow> clearTimeout h (h_pending s));
                   graceTimer = h_next s
               in s\<lparr>h_pending := cleared @
                       [\<lparr>t_handle = graceTimer, t_due = h_now s + handler_GRACE_PERIOD,
                         t_closure = \<lparr>hc_key = timerKey, hc_userId = actualUserId,
                                       hc_username = actualUsername, hc_sid = sockId\<rparr>\<rparr>],
                     h_next := graceTimer + 1,
                     h_timers := (h_timers s)(timerKey \<mapsto> graceTimer)\<rparr>)))"

text \<open>
  The expiry callback of the timeout \<open>h\<close>. Its first statement deletes the map's entry;
  the map is not touched after that, so the callback is one step here although the
  logout it ends with is suspended at every store call.
\<close>

definition handler_expiry :: "sys_env \<Rightarrow> nat \<Rightarrow> sys \<Rightarrow> sys" where
  "handler_expiry env h s =
     (case find (\<lambda>t. t_handle t = h) (h_pending s) of
        None \<Rightarrow> s
      | Some t \<Rightarrow>
          if h_now s < t_due t then s
          else
            (let c = t_closure t;
                 s1 = s\<lparr>h_pending := clearTimeout h (h_pending s),
                        h_timers := (h_timers s)(hc_key c := None)\<rparr>;
                 reconnected =
                   (io_sockets_is_map env \<and>
                    list_ex (\<lambda>k. js_to_string (sk_userId (h_socks s1 k)) = js_to_string (hc_userId c))
                      (h_connected s1))
             in if reconnected then s1
                else handleLogout env (hc_sid c)
                       (JObj [(''userId'', hc_userId c), (''username'', hc_username c)])
                       (snd (sys_emit (presence_offline env (hc_username c)) s1))))"

text \<open>
  \<^verbatim>\<open>checkSession\<close>, with its own \<^verbatim>\<open>catch\<close>. The old socket is looked up in
  \<^verbatim>\<open>io.sockets.sockets\<close>, which is undefined when \<^verbatim>\<open>io.sockets\<close> is itself the
  \<^verbatim>\<open>Map\<close>.
\<close>

definition checkSession_try :: "sys_env \<Rightarrow> string \<Rightarrow> jsval \<Rightarrow> (sys, unit) act" where
  "checkSession_try env sockId data =
     bnd (lift (get_prop data ''username'')) (\<lambda>username.
     bnd (call_ext env ''getSession'' [username]) (\<lambda>existingSession.
     bnd (if truthy existingSession \<and> existingSession \<noteq> JStr sockId then
            (if io_sockets_is_map env then lift (Inl TypeError)
             else
               bnd (gets (\<lambda>s. case existingSession of
                                  JStr k \<Rightarrow> k \<in> set (h_connected s)
                                | _ \<Rightarrow> False)) (\<lambda>oldSocket.
                 if oldSocket then
                   bnd (sys_emit (Emit (ToSocket (js_to_string existingSession)) ''session:kicked''
                          (JObj [(''reason'', JStr ''New login from another device'')]))) (\<lambda>u1.
                     sys_emit (ForceDisconnect (js_to_string existingSession)))
                 else ret ()))
          else ret ()) (\<lambda>u2.
     bnd (call_ext env ''setSession'' [username, JStr sockId]) (\<lambda>u3.
       sys_emit (Emit (ToSocket sockId) ''session:established'' (JObj [(''username'', username)]))))))"

definition checkSession :: "sys_env \<Rightarrow> string \<Rightarrow> jsval \<Rightarrow> (sys, unit) act" where
  "checkSession env sockId data s =
     (case checkSession_try env sockId data s of
        (Inl e, s') \<Rightarrow>
          sys_emit (Emit (ToSocket sockId) ''error'' (JObj [(''message'', JStr ''Failed to establish session'')])) s'
      | (Inr u, s') \<Rightarrow> (Inr (), s'))"

text \<open>
  \<^verbatim>\<open>authenticate\<close>, from the user lookup on: the part of the handler that follows the
  cancellation of the timer.
\<close>

definition authenticate_session :: "sys_env \<Rightarrow> string \<Rightarrow> jsval \<Rightarrow> (sys, unit) act" where
  "authenticate_session env sockId username =
     bnd (call_ext env ''userService.getUserByUsername'' [username]) (\<lambda>found.
     bnd (if truthy found then ret (Some found)
          else
            bnd (call_ext env ''userService.createUser'' [username]) (\<lambda>created.
              if \<not> truthy created \<or> truthy (get_prop_opt created ''error'') then
                bnd (sys_emit (Emit (ToSocket sockId) ''error''
                       (JObj [(''message'', js_or (get_prop_opt created ''error'')
                                              (JStr ''Failed to create user''))]))) (\<lambda>u1. ret None)
              else ret (Some created))) (\<lambda>user0.
       case user0 of
         None \<Rightarrow> ret ()
       | Some user \<Rightarrow>
           bnd (call_ext env ''userService.connectUser'' [get_prop_opt user ''id'', JStr sockId]) (\<lambda>u2.
           bnd (modify (\<lambda>s. s\<lparr>h_socks := (h_socks s)(sockId := (h_socks s sockId)
                   \<lparr>sk_userId := get_prop_opt user ''id'',
                    sk_username := get_prop_opt user ''username''\<rparr>)\<rparr>)) (\<lambda>u3.
           bnd (checkSession env sockId (JObj [(''username'', get_prop_opt user ''username'')])) (\<lambda>u4.
           bnd (call_ext env ''getUserLevel'' [get_prop_opt user ''id'']) (\<lambda>levelData.
           bnd (call_ext env ''getPresence'' [get_prop_opt user ''username'']) (\<lambda>status.
           bnd (lift (get_prop levelData ''level'')) (\<lambda>level.
             sys_emit (Emit (ToSocket sockId) ''authenticated''
               (JObj [(''user'', JObj
                  [(''id'', get_prop_opt user ''id''), (''username'', get_prop_opt user ''username''),
                   (''credits'', get_prop_opt user ''credits''), (''role'', get_prop_opt user ''role''),
                   (''status'', status), (''level'', level),
                   (''xp'', get_prop_opt levelData ''xp''),
                   (''nextLevelXp'', get_prop_opt levelData ''nextLevelXp''),
                   (''progress'', get_prop_opt levelData ''progress'')])]))))))))))"

text \<open>
  \<^verbatim>\<open>authenticate\<close>: the timer of the authenticating user is cancelled before the first
  \<^verbatim>\<open>await\<close>.
\<close>

definition authenticate_try :: "sys_env \<Rightarrow> string \<Rightarrow> jsval \<Rightarrow> (sys, unit) act" where
  "authenticate_try env sockId data =
     bnd (lift (get_prop data ''userId'')) (\<lambda>userId.
     bnd (lift (get_prop data ''username'')) (\<lambda>username.
       if \<not> truthy userId \<or> \<not> truthy username then
         sys_emit (Emit (ToSocket sockId) ''error'' (JObj [(''message'', JStr ''Authentication required'')]))
       else
         bnd (modify (\<lambda>s. snd (handler_cancelDisconnectTimer userId s))) (\<lambda>u0.
           authenticate_session env sockId username)))"

definition authenticate :: "sys_env \<Rightarrow> string \<Rightarrow> jsval \<Rightarrow> sys \<Rightarrow> sys" where
  "authenticate env sockId data s =
     (case authenticate_try env sockId data s of
        (Inl e, s') \<Rightarrow>
          snd (sys_emit (Emit (ToSocket sockId) ''error'' (JObj [(''message'', JStr ''Authentication failed'')])) s')
      | (Inr u, s') \<Rightarrow> s')"

text \<open>The timeouts armed under a key of this module.\<close>

definition handler_armed_for :: "string \<Rightarrow> sys \<Rightarrow> handler_closure timeout list" where
  "handler_armed_for k s = filter (\<lambda>t. hc_key (t_closure t) = k) (h_pending s)"

text \<open>
  What can happen to the socket handler's module, one event after the other. The
  runtime adds a socket to the connected ones when it connects and removes it before the
  \<^verbatim>\<open>disconnect\<close> handlers run.
\<close>

datatype sys_op =
    Connect string
  | Disconnect string string
  | Authenticate string jsval
  | Logout string jsval
  | CancelTimer jsval
  | Expire nat
  | Tick nat

fun sys_step :: "sys_env \<Rightarrow> sys_op \<Rightarrow> sys \<Rightarrow> sys" where
  "sys_step env (Connect sockId) s = s\<lparr>h_connected := h_connected s @ [sockId]\<rparr>"
| "sys_step env (Disconnect sockId reason) s =
     handleDisconnect env sockId reason (s\<lparr>h_connected := removeAll sockId (h_connected s)\<rparr>)"
| "sys_step env (Authenticate sockId data) s = authenticate env sockId data s"
| "sys_step env (Logout sockId data) s = handleLogout env sockId data s"
| "sys_step env (CancelTimer userId) s = snd (handler_cancelDisconnectTimer userId s)"
| "sys_step env (Expire h) s = handler_expiry env h s"
| "sys_step env (Tick d) s = s\<lparr>h_now := h_now s + d\<rparr>"

fun sys_run :: "sys_env \<Rightarrow> sys_op list \<Rightarrow> sys \<Rightarrow> sys" where
  "sys_run env [] s = s"
| "sys_run env (x # xs) s = sys_run env xs (sys_step env x s)"

text \<open>
  The runs of the grace-period module in which every expiry callback that starts is
  resumed before anything else happens.
\<close>

fun unsuspended :: "grace_op list \<Rightarrow> bool" where
  "unsuspended [] = True"
| "unsuspended (Fire h # Resume # xs) = unsuspended xs"
| "unsuspended (Fire h # xs) = False"
| "unsuspended (Resume # xs) = False"
| "unsuspended (x # xs) = unsuspended xs"

section \<open>Notions the properties are stated with\<close>

definition nullish :: "jsval \<Rightarrow> bool" where
  "nullish v = (v = JUndefined \<or> v = JNull)"

text \<open>A request carries its three identifiers when each is there and truthy.\<close>

definition ids_present :: "jsval \<Rightarrow> bool" where
  "ids_present data =
     (truthy (get_prop_opt data ''roomId'') \<and> truthy (get_prop_opt data ''userId'')
      \<and> truthy (get_prop_opt data ''username''))"

text \<open>What a handler emitted between two states.\<close>

definition new_emissions :: "'t server \<Rightarrow> 't server \<Rightarrow> emission list" where
  "new_emissions s s' = drop (length (emitted s)) (emitted s')"

definition sys_new_emissions :: "sys \<Rightarrow> sys \<Rightarrow> emission list" where
  "sys_new_emissions s s' = drop (length (h_emitted s)) (h_emitted s')"

text \<open>
  What is assumed of a collaborator where a property needs it: it returns (does not
  throw), it returns an object, or it returns a result whose \<^verbatim>\<open>success\<close> is truthy (the
  room access gate lets the request pass).
\<close>

definition returns :: "'t collaborator \<Rightarrow> bool" where
  "returns c = (\<forall>s. \<exists>v r. c s = (Inr v, r))"


definition accepts :: "'t collaborator \<Rightarrow> bool" where
  "accepts c = (\<forall>s. \<exists>v r. c s = (Inr v, r) \<and> truthy (get_prop_opt v ''success''))"

text \<open>A collaborator that leaves the grace timers as it found them.\<close>

definition spares_timers :: "'t collaborator \<Rightarrow> bool" where
  "spares_timers c = (\<forall>s. snd (snd (c s)) = timers s)"

text \<open>An action keeps a relation between the state before and the state after.\<close>

definition keeps :: "('s \<Rightarrow> 's \<Rightarrow> bool) \<Rightarrow> ('s, 'a) act \<Rightarrow> bool" where
  "keeps R m = (\<forall>s. R s (snd (m s)))"

definition same_timers :: "'t server \<Rightarrow> 't server \<Rightarrow> bool" where
  "same_timers s s' = (timers s' = timers s)"


definition sys_same_timers :: "sys \<Rightarrow> sys \<Rightarrow> bool" where
  "sys_same_timers s s' = (h_timers s' = h_timers s \<and> h_pending s' = h_pending s)"

definition sys_frame :: "sys \<Rightarrow> sys \<Rightarrow> bool" where
  "sys_frame s s' = (sys_same_timers s s' \<and> h_next s' = h_next s)"

text \<open>
  The invariants behind "one timer for a user": every armed timeout is the one the map
  holds for its user, handles are not reused, and (in the grace-period module) no expiry
  callback is suspended.
\<close>

definition sys_inv :: "sys \<Rightarrow> bool" where
  "sys_inv s =
     ((\<forall>t \<in> set (h_pending s). h_timers s (hc_key (t_closure t)) = Some (t_handle t))
      \<and> distinct (map t_handle (h_pending s))
      \<and> (\<forall>t \<in> set (h_pending s). t_handle t < h_next s))"

definition grace_inv :: "grace \<Rightarrow> bool" where
  "grace_inv g =
     (g_running g = []
      \<and> (\<forall>t \<in> set (g_pending g).
            map_option ti_timer (g_timers g (gc_userId (t_closure t))) = Some (t_handle t))
      \<and> distinct (map t_handle (g_pending g))
      \<and> (\<forall>t \<in> set (g_pending g). t_handle t < g_next g))"

section \<open>Concrete scenarios\<close>

text \<open>
  A store, a fresh socket, payloads, and stand-ins for the absent services, for the
  properties' instances. The stand-ins do what the handlers' comments say of the calls,
  with the functions of \<^verbatim>\<open>utils/redisPresence.js\<close>: the room service lets every request
  pass and records the member in the Presence Directory on a join, removes the member on
  a leave ("Remove from Redis"); the count and the participants are read from the
  Presence Directory. None of them calls the module of the grace timers.
\<close>

definition demo_store :: redis where
  "demo_store = \<lparr>connected = True, rsets = Map.empty, rlog = []\<rparr>"

definition stale_store :: redis where
  "stale_store = \<lparr>connected = True, rsets = [''room:r1:participants'' \<mapsto> [''alice'']], rlog = []\<rparr>"

definition empty_namespace :: namespace where
  "empty_namespace = \<lparr>ns_rooms = Map.empty, ns_sockets = Map.empty\<rparr>"

definition demo_env :: "'t room_env" where
  "demo_env =
     \<lparr>svc_joinRoom = (\<lambda>roomId userId username s.
          case addUserToRoom roomId (js_to_string username) (store s) of (ok, r) \<Rightarrow>
            (Inr (JObj [(''success'', JBool True), (''room'', JObj [(''id'', roomId)])]), r, timers s)),
      svc_leaveRoom = (\<lambda>roomId userId username s.
          case removeUserFromRoom roomId (js_to_string username) (store s) of (ok, r) \<Rightarrow>
            (Inr (JBool ok), r, timers s)),
      presence_getRoomUserCount = (\<lambda>roomId s.
          case getRoomUserCount socketStore_init roomId (store s) of (n, r) \<Rightarrow>
            (Inr (JNum (int n)), r, timers s)),
      getRoomParticipants = (\<lambda>roomId s.
          case getRoomUsers socketStore_init roomId (store s) of (us, r) \<Rightarrow>
            (Inr (JArr us), r, timers s)),
      getUserLevel = (\<lambda>userId s. (Inr (JObj [(''level'', JNum 1)]), store s, timers s)),
      iso_now = ''2026-02-10T00:00:00.000Z''\<rparr>"

definition fresh_socket :: "'t \<Rightarrow> 't server" where
  "fresh_socket t =
     \<lparr>sid = ''s1'', joinedRooms = None, currentRoomId = JUndefined, adapter = Map.empty,
      store = demo_store, timers = t, emitted = []\<rparr>"


definition nameless_request :: jsval where
  "nameless_request = JObj [(''roomId'', JStr ''r1''), (''userId'', JNum 7)]"

definition demo_grace_env :: grace_env where
  "demo_grace_env =
     \<lparr>ge_removeUserFromRoom = (\<lambda>roomId userId username r. (Inr JUndefined, r)),
      ge_setPresence = (\<lambda>username status r. (Inr JUndefined, r))\<rparr>"

text \<open>Alice (user 7) has lost her connection: her grace timer is running.\<close>

definition alice_in_grace :: grace where
  "alice_in_grace = addDisconnectGraceTimer (JNum 7) (JStr ''alice'') (JStr ''r1'') None (grace_init demo_store)"

definition demo_sys_env :: sys_env where
  "demo_sys_env =
     \<lparr>ext = (\<lambda>name args r. (Inr JUndefined, r)), io_sockets_is_map = False,
      sys_iso_now = ''2026-02-10T00:00:00.000Z''\<rparr>"

text \<open>Alice's socket \<open>s1\<close> is authenticated and the store lists room \<open>r1\<close> as hers.\<close>

definition alice_online :: sys where
  "alice_online =
     \<lparr>h_timers = Map.empty, h_pending = [], h_next = 0, h_now = 0,
      h_socks = (\<lambda>k. if k = ''s1''
                       then \<lparr>sk_userId = JNum 7, sk_username = JStr ''alice'', sk_logoutProcessed = False\<rparr>
                       else \<lparr>sk_userId = JUndefined, sk_username = JUndefined, sk_logoutProcessed = False\<rparr>),
      h_connected = [''s1''],
      h_store = \<lparr>connected = True, rsets = [''user:7:rooms'' \<mapsto> [''r1'']], rlog = []\<rparr>,
      h_emitted = []\<rparr>"



text \<open>The same collaborators where \<^verbatim>\<open>io.sockets\<close> is the \<^verbatim>\<open>Map\<close> of the connected sockets.\<close>

definition demo_sys_env_map :: sys_env where
  "demo_sys_env_map = demo_sys_env\<lparr>io_sockets_is_map := True\<rparr>"

section \<open>Reasoning about handlers\<close>

lemma get_prop_eq:
  "get_prop data k = (if nullish data then Inl TypeError else Inr (get_prop_opt data k))"
  by (cases data) (simp_all add: nullish_def)

lemma truthy_prop_not_nullish: "truthy (get_prop_opt v k) \<Longrightarrow> \<not> nullish v"
  by (cases v) (simp_all add: nullish_def)

lemma bnd_lift_Inl: "bnd (lift (Inl e)) f = lift (Inl e)"
  by (rule ext) (simp add: bnd_def lift_def)

lemma bnd_lift_Inr: "bnd (lift (Inr x)) f = f x"
  by (rule ext) (simp add: bnd_def lift_def)

lemma bnd_ret: "bnd (ret x) f = f x"
  by (rule ext) (simp add: bnd_def ret_def)

lemma bnd_modify: "bnd (modify g) f s = f () (g s)"
  by (simp add: bnd_def modify_def)

lemma bnd_gets: "bnd (gets g) f s = f (g s) s"
  by (simp add: bnd_def gets_def)

lemma bnd_emit: "bnd (emit e) f s = f () (s\<lparr>emitted := emitted s @ [e]\<rparr>)"
  by (simp add: bnd_def emit_def)

lemma bnd_await_fun:
  "(\<And>s. c s = (Inr (V s), W s)) \<Longrightarrow>
     bnd (await c) f s = f (V s) (s\<lparr>store := fst (W s), timers := snd (W s)\<rparr>)"
  by (simp add: bnd_def await_def split: prod.splits)

lemmas bnd_simps = bnd_lift_Inl bnd_lift_Inr bnd_ret bnd_modify bnd_gets bnd_emit

lemma keeps_bnd:
  assumes "transp R" "keeps R m" "\<And>x. keeps R (f x)"
  shows "keeps R (bnd m f)"
proof -
  have "R s (snd (bnd m f s))" for s
  proof (cases "m s")
    case (Pair v s')
    have a: "R s s'" using assms(2) Pair by (auto simp: keeps_def dest: spec [of _ s])
    show ?thesis
    proof (cases v)
      case (Inl e)
      then show ?thesis using Pair a by (simp add: bnd_def)
    next
      case (Inr x)
      have "R s' (snd (f x s'))" using assms(3) by (simp add: keeps_def)
      with a have "R s (snd (f x s'))" using assms(1) by (auto dest: transpD)
      then show ?thesis using Pair Inr by (simp add: bnd_def)
    qed
  qed
  then show ?thesis by (simp add: keeps_def)
qed

lemma keeps_ret: "reflp R \<Longrightarrow> keeps R (ret x)"
  by (simp add: keeps_def ret_def reflpD)

lemma keeps_lift: "reflp R \<Longrightarrow> keeps R (lift v)"
  by (simp add: keeps_def lift_def reflpD)

lemma keeps_gets: "reflp R \<Longrightarrow> keeps R (gets g)"
  by (simp add: keeps_def gets_def reflpD)

lemma keeps_modify: "(\<And>s. R s (g s)) \<Longrightarrow> keeps R (modify g)"
  by (simp add: keeps_def modify_def)

lemma keeps_if: "keeps R a \<Longrightarrow> keeps R b \<Longrightarrow> keeps R (if c then a else b)"
  by simp

lemma keeps_case_option:
  "keeps R a \<Longrightarrow> (\<And>x. keeps R (b x)) \<Longrightarrow> keeps R (case v of None \<Rightarrow> a | Some x \<Rightarrow> b x)"
  by (cases v) simp_all

lemma handler_keeps:
  assumes "reflp R" "transp R" "keeps R body" "keeps R final"
  shows "R s (case body s of (Inl e, s') \<Rightarrow> snd (final s') | (Inr u, s') \<Rightarrow> s')"
proof (cases "body s")
  case (Pair v s')
  have a: "R s s'" using assms(3) Pair by (auto simp: keeps_def dest: spec [of _ s])
  show ?thesis
  proof (cases v)
    case (Inl e)
    have "R s' (snd (final s'))" using assms(4) by (simp add: keeps_def)
    with a have "R s (snd (final s'))" using assms(2) by (auto dest: transpD)
    then show ?thesis using Pair Inl by simp
  next
    case (Inr u)
    then show ?thesis using Pair a by simp
  qed
qed

lemma reflp_same_timers: "reflp same_timers"
  by (simp add: reflp_def same_timers_def)

lemma transp_same_timers: "transp same_timers"
  by (simp add: transp_def same_timers_def)



lemma same_timers_await: "spares_timers c \<Longrightarrow> keeps same_timers (await c)"
proof -
  assume a: "spares_timers c"
  have "timers (snd (await c s)) = timers s" for s
    using a [unfolded spares_timers_def, rule_format, of s]
    by (cases "c s") (auto simp: await_def)
  then show ?thesis by (simp add: keeps_def same_timers_def)
qed

lemma same_timers_emit: "keeps same_timers (emit e)"
  by (simp add: keeps_def emit_def same_timers_def)




section \<open>The room handlers and the grace timers\<close>

text \<open>
  No statement of the three handlers acts on the grace timers. What happens to the timers
  during a request is what the services the handler awaits do to them: when those leave
  the timers as they found them, so does the request.
\<close>

lemma join_try_timers:
  assumes "spares_timers (svc_joinRoom env (get_prop_opt data ''roomId'')
             (get_prop_opt data ''userId'') (get_prop_opt data ''username''))"
    and "spares_timers (presence_getRoomUserCount env (get_prop_opt data ''roomId''))"
    and "spares_timers (getRoomParticipants env (get_prop_opt data ''roomId''))"
    and "spares_timers (getUserLevel env (get_prop_opt data ''userId''))"
  shows "keeps same_timers (joinRoom_try env data)"
proof (cases "nullish data")
  case True
  then show ?thesis
    by (simp add: joinRoom_try_def get_prop_eq bnd_lift_Inl keeps_lift reflp_same_timers)
next
  case False
  then have eq: "get_prop data k = Inr (get_prop_opt data k)" for k
    by (simp add: get_prop_eq)
  show ?thesis
    unfolding joinRoom_try_def broadcastUserEntered_def userListUpdate_def eq bnd_lift_Inr
    by (intro keeps_bnd keeps_if keeps_lift keeps_ret keeps_modify keeps_gets
        same_timers_await same_timers_emit transp_same_timers reflp_same_timers assms)
       (simp_all add: same_timers_def socket_join_def)
qed



lemma joinRoom_timers:
  assumes "spares_timers (svc_joinRoom env (get_prop_opt data ''roomId'')
             (get_prop_opt data ''userId'') (get_prop_opt data ''username''))"
    and "spares_timers (presence_getRoomUserCount env (get_prop_opt data ''roomId''))"
    and "spares_timers (getRoomParticipants env (get_prop_opt data ''roomId''))"
    and "spares_timers (getUserLevel env (get_prop_opt data ''userId''))"
  shows "timers (joinRoom env data s) = timers s"
  using handler_keeps [OF reflp_same_timers transp_same_timers join_try_timers [OF assms]
      same_timers_emit, where s = s]
  by (simp add: joinRoom_def same_timers_def)



section \<open>Requests that lack an identifier\<close>

lemma joinRoom_missing:
  assumes "\<not> ids_present data"
  shows "joinRoom env data s =
           s\<lparr>emitted := emitted s @
               [if nullish data then failed_error ''Failed to join room'' else required_error]\<rparr>"
  using assms
  by (auto simp: joinRoom_def joinRoom_try_def get_prop_eq bnd_simps ids_present_def emit_def lift_def)

lemma rejoinRoom_missing:
  assumes "\<not> ids_present data"
  shows "rejoinRoom env data s =
           s\<lparr>emitted := emitted s @
               [if nullish data then failed_error ''Failed to rejoin room'' else required_error]\<rparr>"
  using assms
  by (auto simp: rejoinRoom_def rejoinRoom_try_def get_prop_eq bnd_simps ids_present_def emit_def lift_def)

lemma leaveRoom_missing:
  assumes "\<not> ids_present data"
  shows "leaveRoom env data s =
           s\<lparr>emitted := emitted s @
               [if nullish data then failed_error ''Failed to leave room'' else required_error]\<rparr>"
  using assms
  by (auto simp: leaveRoom_def leaveRoom_try_def get_prop_eq bnd_simps ids_present_def emit_def lift_def)

text \<open>
  C9. A join, rejoin or leave request in which roomId, userId or username is missing (or
  falsy, or whose payload is absent) makes the handler emit one \<^verbatim>\<open>error\<close> event to the
  requesting client and changes nothing else: the socket's first-join set and
  currentRoomId, the Connection Registry (the adapter), the Presence Directory (the
  store) and the timers are those of the state before, and nothing is sent to a room.
  The message is the validation message when the payload is an object, and the
  handler's failure message when the payload itself is undefined or null.
\<close>

theorem missing_identifier_rejected_without_change:
  assumes "\<not> ids_present data"
  shows "joinRoom env data s =
           s\<lparr>emitted := emitted s @
               [if nullish data then failed_error ''Failed to join room'' else required_error]\<rparr>
       \<and> rejoinRoom env data s =
           s\<lparr>emitted := emitted s @
               [if nullish data then failed_error ''Failed to rejoin room'' else required_error]\<rparr>
       \<and> leaveRoom env data s =
           s\<lparr>emitted := emitted s @
               [if nullish data then failed_error ''Failed to leave room'' else required_error]\<rparr>"
  using assms by (simp add: joinRoom_missing rejoinRoom_missing leaveRoom_missing)

theorem missing_identifier_rejected_witness:
  "\<not> ids_present nameless_request
   \<and> joinRoom demo_env nameless_request (fresh_socket alice_in_grace) =
       (fresh_socket alice_in_grace)\<lparr>emitted := [required_error]\<rparr>
   \<and> rejoinRoom demo_env nameless_request (fresh_socket alice_in_grace) =
       (fresh_socket alice_in_grace)\<lparr>emitted := [required_error]\<rparr>
   \<and> leaveRoom demo_env nameless_request (fresh_socket alice_in_grace) =
       (fresh_socket alice_in_grace)\<lparr>emitted := [required_error]\<rparr>
   \<and> required_error =
       Emit ToSelf ''error'' (JObj [(''message'', JStr ''roomId, userId, and username are required'')])"
proof -
  have h: "\<not> ids_present nameless_request"
    by (simp add: ids_present_def nameless_request_def)
  have n: "\<not> nullish nameless_request"
    by (simp add: nullish_def nameless_request_def)
  have e: "emitted (fresh_socket alice_in_grace) = []"
    by (simp add: fresh_socket_def)
  from missing_identifier_rejected_without_change [OF h, of demo_env "fresh_socket alice_in_grace"]
  show ?thesis using h n e by (simp add: required_error_def)
qed


section \<open>The registry's answer and the fallback to the store\<close>

text \<open>
  C8. While the registry is not initialised (\<^verbatim>\<open>isReady\<close> false or no chat namespace),
  the room count and the member list of every room are the distinguished unknown value
  (\<open>None\<close>, which no count equals). Both callers, \<^verbatim>\<open>getRoomUserCount\<close> and
  \<^verbatim>\<open>getRoomUsers\<close>, return the registry's answer and leave the store untouched whenever
  the registry gives one, a count of zero and an empty list included; if either issued a
  store command, the registry's answer was unknown.
\<close>

theorem registry_unknown_is_not_zero_and_only_unknown_falls_back:
  "(\<not> isReady st \<or> chatNamespace st = None \<longrightarrow>
      getSocketRoomCount st roomId = None \<and> getSocketRoomUsers st roomId = None)
   \<and> (\<forall>n. getSocketRoomCount st roomId = Some n \<longrightarrow> getRoomUserCount st roomId r = (n, r))
   \<and> (\<forall>us. getSocketRoomUsers st roomId = Some us \<longrightarrow>
         getRoomUsers st roomId r = (map ru_username us, r))
   \<and> (rlog (snd (getRoomUserCount st roomId r)) \<noteq> rlog r \<longrightarrow> getSocketRoomCount st roomId = None)
   \<and> (rlog (snd (getRoomUsers st roomId r)) \<noteq> rlog r \<longrightarrow> getSocketRoomUsers st roomId = None)"
  by (auto simp: getSocketRoomCount_def getSocketRoomUsers_def getRoomUserCount_def getRoomUsers_def
      split: option.splits sum.splits prod.splits)

theorem registry_unknown_witness:
  "getSocketRoomCount socketStore_init (JStr ''r1'') = None
   \<and> getSocketRoomUsers socketStore_init (JStr ''r1'') = None
   \<and> fst (getRoomUserCount socketStore_init (JStr ''r1'') stale_store) = 1
   \<and> rlog (snd (getRoomUserCount socketStore_init (JStr ''r1'') stale_store))
       = [SCARD ''room:r1:participants'']
   \<and> rlog (snd (getRoomUsers socketStore_init (JStr ''r1'') stale_store))
       = [SMEMBERS ''room:r1:participants'']
   \<and> getSocketRoomCount (setIo (\<lambda>n. empty_namespace) socketStore_init) (JStr ''r1'') = Some 0
   \<and> getRoomUserCount (setIo (\<lambda>n. empty_namespace) socketStore_init) (JStr ''r1'') stale_store
       = (0, stale_store)
   \<and> getRoomUsers (setIo (\<lambda>n. empty_namespace) socketStore_init) (JStr ''r1'') stale_store
       = ([], stale_store)"
  using registry_unknown_is_not_zero_and_only_unknown_falls_back
      [of socketStore_init "JStr ''r1''" stale_store]
    registry_unknown_is_not_zero_and_only_unknown_falls_back
      [of "setIo (\<lambda>n. empty_namespace) socketStore_init" "JStr ''r1''" stale_store]
  by (simp add: socketStore_init_def setIo_def empty_namespace_def stale_store_def
      getSocketRoomCount_def getSocketRoomUsers_def getRoomUserCount_def getRoomUsers_def
      getRedisClient_def sCard_def sMembers_def room_key_def)

text \<open>
  C10. \<^verbatim>\<open>clearRoomUsers\<close> returns false for every room and leaves the store as it was,
  its command log included: the module binds no \<^verbatim>\<open>ROOM_USERS_KEY\<close>, so evaluating the
  argument of \<^verbatim>\<open>client.del\<close> throws before any deletion is issued, and the \<^verbatim>\<open>catch\<close>
  branch returns false.
\<close>

theorem clearRoomUsers_returns_false_and_deletes_nothing:
  "presence_scope ''ROOM_USERS_KEY'' = None \<and> clearRoomUsers roomId r = (False, r)"
  by (simp add: clearRoomUsers_def call_key_def presence_scope_def split: sum.splits)


section \<open>Join and rejoin\<close>




lemma rejoin_loud:
  fixes env :: "'t room_env" and s :: "'t server"
  assumes ids: "ids_present data"
    and r: "roomId = get_prop_opt data ''roomId''"
    and u: "userId = get_prop_opt data ''userId''"
    and n: "username = get_prop_opt data ''username''"
    and loud: "get_prop_opt data ''silent'' \<noteq> JUndefined" "\<not> truthy (get_prop_opt data ''silent'')"
    and gate: "accepts (svc_joinRoom env roomId userId username)"
    and cnt: "returns (presence_getRoomUserCount env roomId)"
    and parts: "returns (getRoomParticipants env roomId)"
  shows "\<exists>userCount.
           filter (is_event ''room:userEntered'') (new_emissions s (rejoinRoom env data s)) =
             [Emit (ToRoomOthers (room_key roomId)) ''room:userEntered''
                (JObj [(''username'', username), (''userId'', userId),
                       (''message'', JStr (js_to_string username @ '' has entered the chat'')),
                       (''userCount'', userCount), (''timestamp'', JStr (iso_now env))])]"
proof -
  have nn: "\<not> nullish data" using ids by (auto simp: ids_present_def dest: truthy_prop_not_nullish)
  have tr: "truthy roomId" "truthy userId" "truthy username"
    using ids r u n by (simp_all add: ids_present_def)
  obtain G Gw where g: "\<And>x. svc_joinRoom env roomId userId username x = (Inr (G x), Gw x)"
    and ok: "\<And>x. truthy (get_prop_opt (G x) ''success'')"
    using gate unfolding accepts_def by metis
  have rn: "\<And>x. \<not> nullish (G x)" using ok by (rule truthy_prop_not_nullish)
  obtain C Cw where c: "\<And>x. presence_getRoomUserCount env roomId x = (Inr (C x), Cw x)"
    using cnt unfolding returns_def by metis
  obtain P Pw where p: "\<And>x. getRoomParticipants env roomId x = (Inr (P x), Pw x)"
    using parts unfolding returns_def by metis
  note aw = bnd_await_fun [where c = "svc_joinRoom env roomId userId username", OF g]
    bnd_await_fun [where c = "presence_getRoomUserCount env roomId", OF c]
    bnd_await_fun [where c = "getRoomParticipants env roomId", OF p]
  show ?thesis
    unfolding rejoinRoom_def rejoinRoom_try_def new_emissions_def
    using nn tr loud
    by (simp add: get_prop_eq bnd_simps aw ok rn r [symmetric] u [symmetric] n [symmetric]
        broadcastUserEntered_def userListUpdate_def emit_def socket_join_def)
qed






section \<open>Leave\<close>


text \<open>
  What a leave request does to the grace timers is what \<^verbatim>\<open>roomService.leaveRoom\<close> does
  to them: the handler's own statements add nothing to it.
\<close>

lemma leave_timers_are_the_services:
  fixes env :: "'t room_env" and s :: "'t server"
  assumes ids: "ids_present data"
    and r: "roomId = get_prop_opt data ''roomId''"
    and u: "userId = get_prop_opt data ''userId''"
    and n: "username = get_prop_opt data ''username''"
    and svc: "\<And>x. \<exists>v w. svc_leaveRoom env roomId userId username x = (Inr v, w, T (timers x))"
    and cnt: "returns (presence_getRoomUserCount env roomId)"
      "spares_timers (presence_getRoomUserCount env roomId)"
    and parts: "returns (getRoomParticipants env roomId)"
      "spares_timers (getRoomParticipants env roomId)"
  shows "timers (leaveRoom env data s) = T (timers s)"
proof -
  have nn: "\<not> nullish data" using ids by (auto simp: ids_present_def dest: truthy_prop_not_nullish)
  have tr: "truthy roomId" "truthy userId" "truthy username"
    using ids r u n by (simp_all add: ids_present_def)
  obtain G Gw where g: "\<And>x. svc_leaveRoom env roomId userId username x = (Inr (G x), Gw x, T (timers x))"
    using svc by metis
  obtain C Cw where c: "\<And>x. presence_getRoomUserCount env roomId x = (Inr (C x), Cw x)"
    using cnt(1) unfolding returns_def by metis
  obtain P Pw where p: "\<And>x. getRoomParticipants env roomId x = (Inr (P x), Pw x)"
    using parts(1) unfolding returns_def by metis
  have cs: "snd (Cw x) = timers x" for x
    using cnt(2) [unfolded spares_timers_def, rule_format, of x] by (simp add: c)
  have ps: "snd (Pw x) = timers x" for x
    using parts(2) [unfolded spares_timers_def, rule_format, of x] by (simp add: p)
  note aw = bnd_await_fun [where c = "svc_leaveRoom env roomId userId username"
        and W = "\<lambda>x. (Gw x, T (timers x))", OF g]
    bnd_await_fun [where c = "presence_getRoomUserCount env roomId", OF c]
    bnd_await_fun [where c = "getRoomParticipants env roomId", OF p]
  show ?thesis
    unfolding leaveRoom_def leaveRoom_try_def
    using nn tr
    by (simp add: get_prop_eq bnd_simps aw r [symmetric] u [symmetric] n [symmetric]
        userListUpdate_def emit_def socket_leave_def cs ps)
qed




section \<open>Starting a grace timer\<close>

lemma key_of_seven: "int_digits 7 = ''7''"
  by code_simp

lemma level_one: "int_digits 1 = ''1''"
  by code_simp


lemma addDisconnectGraceTimer_new:
  assumes "g_timers g userId = None"
  shows "g_pending (addDisconnectGraceTimer userId username roomId None g) =
           g_pending g @ [\<lparr>t_handle = g_next g, t_due = g_now g + 1800000,
                            t_closure = \<lparr>gc_userId = userId, gc_username = username, gc_roomId = roomId\<rparr>\<rparr>]"
  using assms by (simp add: addDisconnectGraceTimer_def DISCONNECT_GRACE_PERIOD_def Let_def)

lemma cancelDisconnectTimer_found:
  "g_timers g userId = Some i \<Longrightarrow>
     cancelDisconnectTimer userId g =
       (True, g\<lparr>g_pending := clearTimeout (ti_timer i) (g_pending g),
                 g_timers := (g_timers g)(userId := None)\<rparr>)"
  by (simp add: cancelDisconnectTimer_def)

lemma cancelDisconnectTimer_none:
  "g_timers g userId = None \<Longrightarrow> cancelDisconnectTimer userId g = (False, g)"
  by (simp add: cancelDisconnectTimer_def)

lemma handleDisconnect_arms:
  assumes "truthy (sk_username (h_socks s sockId))"
    and "reason \<noteq> ''client namespace disconnect''" "reason \<noteq> ''server namespace disconnect''"
  shows "\<exists>older c. h_pending (handleDisconnect env sockId reason s) =
           older @ [\<lparr>t_handle = h_next s, t_due = h_now s + 30000, t_closure = c\<rparr>]"
  using assms by (simp add: handleDisconnect_def handler_GRACE_PERIOD_def Let_def)




section \<open>The length of the grace period\<close>

text \<open>
  C6 on the code. The grace-period module arms its timers 1,800,000 ms ahead by default.
  The socket handler's \<^verbatim>\<open>handleDisconnect\<close>, which is the handler registered for
  \<^verbatim>\<open>disconnect\<close>, arms them with its own constant of 30,000 ms, as
  systemEvents_fix3.js does: Alice's socket is lost at time 0 and her timeout is due at
  30000.
\<close>

theorem handler_grace_period_is_thirty_seconds:
  "DISCONNECT_GRACE_PERIOD = 1800000
   \<and> handler_GRACE_PERIOD = 30000
   \<and> h_now alice_online = 0
   \<and> map t_due (h_pending (sys_step demo_sys_env (Disconnect ''s1'' ''transport close'') alice_online))
       = [30000]
   \<and> t_due (fix3_handleDisconnect 0 0) = 30000
   \<and> map t_due (g_pending alice_in_grace) = [1800000]"
  by (simp add: handleDisconnect_def alice_online_def handler_GRACE_PERIOD_def Let_def key_of_seven
      DISCONNECT_GRACE_PERIOD_def alice_in_grace_def addDisconnectGraceTimer_def grace_init_def
      fix3_handleDisconnect_def)


section \<open>Re-authentication and rejoin\<close>




lemma sys_same_timers_on_store: "keeps sys_same_timers (on_store f)"
  by (simp add: keeps_def on_store_def sys_same_timers_def split: prod.splits)










section \<open>Expiry of the grace period\<close>

lemma grace_expiry_removes_entry:
  assumes "ge_removeUserFromRoom env (gc_roomId c) (gc_userId c) (gc_username c) (g_store g) = (Inr v, r)"
  shows "g_timers (expiry_body env c g) (gc_userId c) = None"
  using assms by (simp add: expiry_body_def split: prod.splits)

text \<open>
  C4 on the code. When the socket handler's timer expires and the user has not
  reconnected, the callback runs the logout, which tells every room of the user that the
  user has left: Alice's socket is lost, her timer fires at 30000, and room \<open>r1\<close>
  receives one chat message "alice [1] has left" and one \<^verbatim>\<open>room:user:left\<close>, whether
  \<^verbatim>\<open>io.sockets\<close> is the \<^verbatim>\<open>Map\<close> of the connected sockets or not.
\<close>

theorem handler_expiry_announces_departure:
  "h_timers (sys_run demo_sys_env [Disconnect ''s1'' ''transport close'', Tick 30000] alice_online) ''7''
     = Some 0
   \<and> h_timers (sys_run demo_sys_env
        [Disconnect ''s1'' ''transport close'', Tick 30000, Expire 0] alice_online) ''7'' = None
   \<and> filter (is_event ''room:user:left'')
       (h_emitted (sys_run demo_sys_env
          [Disconnect ''s1'' ''transport close'', Tick 30000, Expire 0] alice_online)) =
       [Emit (ToRoom ''room:r1'') ''room:user:left''
          (JObj [(''roomId'', JStr ''r1''), (''username'', JStr ''alice''), (''userId'', JNum 7),
                 (''users'', JUndefined)])]
   \<and> filter (is_event ''chat:message'')
       (h_emitted (sys_run demo_sys_env
          [Disconnect ''s1'' ''transport close'', Tick 30000, Expire 0] alice_online)) =
       [Emit (ToRoom ''room:r1'') ''chat:message''
          (JObj [(''id'', JUndefined), (''roomId'', JStr ''r1''), (''username'', JStr ''Room''),
                 (''message'', JStr ''alice [1] has left''),
                 (''timestamp'', JStr ''2026-02-10T00:00:00.000Z''), (''type'', JStr ''presence''),
                 (''messageType'', JStr ''presence''), (''userType'', JStr ''normal'')])]
   \<and> count_event ''room:user:left''
       (h_emitted (sys_run demo_sys_env_map
          [Disconnect ''s1'' ''transport close'', Tick 30000, Expire 0] alice_online)) = 1"
  by (simp add: handleDisconnect_def alice_online_def Let_def key_of_seven count_event_def
      handler_GRACE_PERIOD_def handler_expiry_def clearTimeout_def demo_sys_env_def demo_sys_env_map_def
      sys_emit_def presence_offline_def handleLogout_def handleLogout_try_def js_or_def bnd_def lift_def
      gets_def modify_def ret_def on_store_def call_ext_def getRedisClient_def sMembers_def sRem_def
      del_def dedup_def logout_room_def level_one)


section \<open>One timer for a user: where it holds\<close>

text \<open>
  In the socket handler's module every run of connects, disconnects, authentications,
  logouts, cancellations, expiries and clock ticks from a state with no timer keeps at
  most one timeout armed under a user's key: a disconnect clears the timeout the map
  holds before it arms the next, and the expiry callback deletes the entry in its first
  statement. In the grace-period module the same holds for the runs in which every
  expiry callback is resumed as soon as it has started.
\<close>

lemma one_of_a_kind:
  assumes "distinct (map f xs)" and "\<And>x. x \<in> set xs \<Longrightarrow> f x = c"
  shows "length xs \<le> 1"
proof (cases xs)
  case Nil
  then show ?thesis by simp
next
  case (Cons a ys)
  show ?thesis
  proof (cases ys)
    case Nil
    with Cons show ?thesis by simp
  next
    case (Cons b zs)
    have "f a = c" "f b = c" using assms(2) \<open>xs = a # ys\<close> Cons by simp_all
    then have "f a = f b" by simp
    then show ?thesis using assms(1) \<open>xs = a # ys\<close> Cons by simp
  qed
qed

lemma sys_inv_one:
  assumes "sys_inv s"
  shows "length (handler_armed_for k s) \<le> 1"
proof (rule one_of_a_kind [where f = t_handle and c = "the (h_timers s k)"])
  show "distinct (map t_handle (handler_armed_for k s))"
    using assms by (simp add: sys_inv_def handler_armed_for_def distinct_map_filter)
  show "\<And>x. x \<in> set (handler_armed_for k s) \<Longrightarrow> t_handle x = the (h_timers s k)"
    using assms by (auto simp: sys_inv_def handler_armed_for_def)
qed

lemma sys_inv_same:
  assumes "sys_inv s" "sys_same_timers s s'" "h_next s' = h_next s"
  shows "sys_inv s'"
  using assms by (simp add: sys_inv_def sys_same_timers_def)

lemma sys_inv_cancel:
  assumes "sys_inv s"
  shows "sys_inv (snd (handler_cancelDisconnectTimer userId s))"
proof (cases "h_timers s (js_to_string userId)")
  case None
  then show ?thesis using assms by (simp add: handler_cancelDisconnectTimer_def)
next
  case (Some h)
  have m: "h_timers s (hc_key (t_closure t)) = Some (t_handle t)" if "t \<in> set (h_pending s)" for t
    using assms that by (simp add: sys_inv_def)
  have "hc_key (t_closure t) \<noteq> js_to_string userId"
    if "t \<in> set (h_pending s)" "t_handle t \<noteq> h" for t
    using m [OF that(1)] that(2) Some by auto
  then show ?thesis
    using assms Some
    by (auto simp: handler_cancelDisconnectTimer_def sys_inv_def clearTimeout_def distinct_map_filter)
qed

lemma reflp_sys_frame: "reflp sys_frame"
  by (simp add: reflp_def sys_frame_def sys_same_timers_def)

lemma transp_sys_frame: "transp sys_frame"
  by (simp add: transp_def sys_frame_def sys_same_timers_def)

lemma sys_frame_steps:
  "keeps sys_frame (call_ext env name args)"
  "keeps sys_frame (on_store f)"
  "keeps sys_frame (sys_emit e)"
  by (simp_all add: keeps_def call_ext_def on_store_def sys_emit_def sys_frame_def
      sys_same_timers_def split: prod.splits)

lemma logout_room_frame:
  "keeps sys_frame (logout_room env actualUserId actualUsername userLevel userType roomId)"
  unfolding logout_room_def
  by (intro keeps_bnd sys_frame_steps transp_sys_frame)

lemma logout_rooms_frame:
  "keeps sys_frame (logout_rooms env actualUserId actualUsername userLevel userType roomIds)"
  by (induction roomIds)
     (auto intro!: keeps_bnd keeps_ret logout_room_frame transp_sys_frame reflp_sys_frame)

lemma handleLogout_try_frame: "keeps sys_frame (handleLogout_try env sockId data)"
  unfolding handleLogout_try_def
  by (intro keeps_bnd keeps_if keeps_lift keeps_ret keeps_gets keeps_modify sys_frame_steps
      logout_rooms_frame transp_sys_frame reflp_sys_frame)
     (simp_all add: sys_frame_def sys_same_timers_def)

lemma handleLogout_frame: "sys_frame s (handleLogout env sockId data s)"
  using handler_keeps [OF reflp_sys_frame transp_sys_frame handleLogout_try_frame [of env sockId data]
      sys_frame_steps(3) [of "Emit (ToSocket sockId) ''error'' (JObj [(''message'', JStr ''Logout failed'')])"],
      where s = s]
  by (simp add: handleLogout_def)

lemma checkSession_frame: "keeps sys_frame (checkSession env sockId data)"
proof -
  have t: "keeps sys_frame (checkSession_try env sockId data)"
    unfolding checkSession_try_def
    by (intro keeps_bnd keeps_if keeps_lift keeps_ret keeps_gets sys_frame_steps
        transp_sys_frame reflp_sys_frame)
  have "sys_frame s (snd (checkSession env sockId data s))" for s
    using handler_keeps [OF reflp_sys_frame transp_sys_frame t
        sys_frame_steps(3) [of "Emit (ToSocket sockId) ''error''
           (JObj [(''message'', JStr ''Failed to establish session'')])"], where s = s]
    by (simp add: checkSession_def split: prod.splits sum.splits)
  then show ?thesis by (simp add: keeps_def)
qed

lemma authenticate_session_frame: "keeps sys_frame (authenticate_session env sockId username)"
  unfolding authenticate_session_def
  by (intro keeps_bnd keeps_if keeps_lift keeps_ret keeps_modify keeps_case_option
      sys_frame_steps checkSession_frame transp_sys_frame reflp_sys_frame)
     (simp_all add: sys_frame_def sys_same_timers_def)

lemma sys_inv_frame: "sys_inv s \<Longrightarrow> sys_frame s s' \<Longrightarrow> sys_inv s'"
  by (simp add: sys_inv_def sys_frame_def sys_same_timers_def)

lemma sys_inv_authenticate:
  assumes "sys_inv s"
  shows "sys_inv (authenticate env sockId data s)"
proof -
  have cancel_next: "h_next (snd (handler_cancelDisconnectTimer u s)) = h_next s" for u
    by (simp add: handler_cancelDisconnectTimer_def Let_def split: option.splits)
  have body: "keeps (\<lambda>a b. sys_inv a \<longrightarrow> sys_inv b) (authenticate_try env sockId data)"
  proof -
    have "sys_inv a \<longrightarrow> sys_inv (snd (authenticate_try env sockId data a))" for a
    proof (cases "nullish data")
      case True
      then show ?thesis by (simp add: authenticate_try_def get_prop_eq bnd_lift_Inl lift_def)
    next
      case False
      show ?thesis
      proof
        assume a: "sys_inv a"
        show "sys_inv (snd (authenticate_try env sockId data a))"
        proof (cases "\<not> truthy (get_prop_opt data ''userId'') \<or> \<not> truthy (get_prop_opt data ''username'')")
          case True
          then show ?thesis using False a
            by (auto simp: authenticate_try_def get_prop_eq bnd_simps sys_emit_def sys_inv_def)
        next
          case ids: False
          have "sys_frame (snd (handler_cancelDisconnectTimer (get_prop_opt data ''userId'') a))
                  (snd (authenticate_session env sockId (get_prop_opt data ''username'')
                         (snd (handler_cancelDisconnectTimer (get_prop_opt data ''userId'') a))))"
            using authenticate_session_frame by (simp add: keeps_def)
          with sys_inv_cancel [OF a] have "sys_inv (snd (authenticate_session env sockId (get_prop_opt data ''username'')
                         (snd (handler_cancelDisconnectTimer (get_prop_opt data ''userId'') a))))"
            by (rule sys_inv_frame)
          then show ?thesis using False ids
            by (simp add: authenticate_try_def get_prop_eq bnd_simps)
        qed
      qed
    qed
    then show ?thesis by (simp add: keeps_def)
  qed
  have fin: "keeps (\<lambda>a b. sys_inv a \<longrightarrow> sys_inv b) (sys_emit e)" for e
    by (simp add: keeps_def sys_emit_def sys_inv_def)
  have "reflp (\<lambda>a b. sys_inv a \<longrightarrow> sys_inv b)" "transp (\<lambda>a b. sys_inv a \<longrightarrow> sys_inv b)"
    by (auto simp: reflp_def transp_def)
  from handler_keeps [OF this body fin, where s = s] assms
  show ?thesis by (simp add: authenticate_def)
qed

lemma sys_inv_disconnect:
  assumes "sys_inv s"
  shows "sys_inv (handleDisconnect env sockId reason s)"
proof (cases "\<not> truthy (sk_username (h_socks s sockId))")
  case True
  then show ?thesis using assms by (simp add: handleDisconnect_def)
next
  case named: False
  show ?thesis
  proof (cases "reason = ''client namespace disconnect'' \<or> reason = ''server namespace disconnect''")
    case True
    then show ?thesis
      using named sys_inv_frame [OF assms handleLogout_frame]
      by (simp add: handleDisconnect_def Let_def)
  next
    case False
    define k where "k = js_to_string (sk_userId (h_socks s sockId))"
    define cleared where
      "cleared = (case h_timers s k of None \<Rightarrow> h_pending s | Some h \<Rightarrow> clearTimeout h (h_pending s))"
    have m: "h_timers s (hc_key (t_closure t)) = Some (t_handle t)" if "t \<in> set (h_pending s)" for t
      using assms that by (simp add: sys_inv_def)
    have lt: "t_handle t < h_next s" if "t \<in> set (h_pending s)" for t
      using assms that by (simp add: sys_inv_def)
    have d: "distinct (map t_handle (h_pending s))" using assms by (simp add: sys_inv_def)
    have sub: "set cleared \<subseteq> set (h_pending s)"
      by (auto simp: cleared_def clearTimeout_def split: option.splits)
    have dc: "distinct (map t_handle cleared)"
      using d by (auto simp: cleared_def clearTimeout_def distinct_map_filter split: option.splits)
    have other: "hc_key (t_closure t) \<noteq> k" if "t \<in> set cleared" for t
    proof (cases "h_timers s k")
      case None
      with that have "t \<in> set (h_pending s)" by (simp add: cleared_def)
      from m [OF this] None show ?thesis by auto
    next
      case (Some h)
      with that have "t \<in> set (h_pending s)" "t_handle t \<noteq> h"
        by (simp_all add: cleared_def clearTimeout_def)
      with m [of t] Some show ?thesis by auto
    qed
    have fresh: "h_next s \<notin> set (map t_handle cleared)"
    proof
      assume "h_next s \<in> set (map t_handle cleared)"
      then obtain t where "t \<in> set cleared" "t_handle t = h_next s" by auto
      with lt [of t] sub show False by auto
    qed
    have eq: "handleDisconnect env sockId reason s =
        s\<lparr>h_pending := cleared @
              [\<lparr>t_handle = h_next s, t_due = h_now s + handler_GRACE_PERIOD,
                t_closure = \<lparr>hc_key = k, hc_userId = sk_userId (h_socks s sockId),
                              hc_username = sk_username (h_socks s sockId), hc_sid = sockId\<rparr>\<rparr>],
            h_next := h_next s + 1,
            h_timers := (h_timers s)(k \<mapsto> h_next s)\<rparr>"
      using named False by (simp add: handleDisconnect_def Let_def k_def cleared_def)
    have a: "\<forall>t \<in> set (h_pending (handleDisconnect env sockId reason s)).
              h_timers (handleDisconnect env sockId reason s) (hc_key (t_closure t)) = Some (t_handle t)"
      using other m sub by (auto simp: eq)
    have b: "distinct (map t_handle (h_pending (handleDisconnect env sockId reason s)))"
      using dc fresh by (simp add: eq)
    have c: "\<forall>t \<in> set (h_pending (handleDisconnect env sockId reason s)).
              t_handle t < h_next (handleDisconnect env sockId reason s)"
      using lt sub by (auto simp: eq less_Suc_eq)
    from a b c show ?thesis by (simp add: sys_inv_def)
  qed
qed

lemma find_handle:
  "find (\<lambda>t. t_handle t = h) ts = Some t \<Longrightarrow> t \<in> set ts \<and> t_handle t = h"
  by (induction ts) (auto split: if_splits)

lemma sys_inv_expiry:
  assumes "sys_inv s"
  shows "sys_inv (handler_expiry env h s)"
proof (cases "find (\<lambda>t. t_handle t = h) (h_pending s)")
  case None
  then show ?thesis using assms by (simp add: handler_expiry_def)
next
  case (Some t)
  then have tin: "t \<in> set (h_pending s)" and th: "t_handle t = h" by (auto dest: find_handle)
  define s1 where "s1 = s\<lparr>h_pending := clearTimeout h (h_pending s),
                           h_timers := (h_timers s)(hc_key (t_closure t) := None)\<rparr>"
  have m: "h_timers s (hc_key (t_closure x)) = Some (t_handle x)" if "x \<in> set (h_pending s)" for x
    using assms that by (simp add: sys_inv_def)
  have "hc_key (t_closure x) \<noteq> hc_key (t_closure t)"
    if "x \<in> set (h_pending s)" "t_handle x \<noteq> h" for x
    using m [OF that(1)] m [OF tin] th that(2) by auto
  then have i1: "sys_inv s1"
    using assms by (auto simp: s1_def sys_inv_def clearTimeout_def distinct_map_filter)
  have i2: "sys_inv (snd (sys_emit e s1))" for e
    using i1 by (simp add: sys_emit_def sys_inv_def)
  show ?thesis
    using Some assms i1 sys_inv_frame [OF i2 handleLogout_frame]
    by (simp add: handler_expiry_def Let_def s1_def [symmetric])
qed

lemma sys_inv_step:
  assumes "sys_inv s"
  shows "sys_inv (sys_step env x s)"
proof (cases x)
  case (Connect sockId)
  then show ?thesis using assms by (simp add: sys_inv_def)
next
  case (Disconnect sockId reason)
  have "sys_inv (s\<lparr>h_connected := removeAll sockId (h_connected s)\<rparr>)"
    using assms by (simp add: sys_inv_def)
  then show ?thesis using Disconnect by (simp add: sys_inv_disconnect)
next
  case (Tick d)
  then show ?thesis using assms by (simp add: sys_inv_def)
qed (use assms in \<open>simp_all add: sys_inv_authenticate sys_inv_cancel sys_inv_expiry
      sys_inv_frame [OF _ handleLogout_frame]\<close>)

lemma sys_inv_run: "sys_inv s \<Longrightarrow> sys_inv (sys_run env xs s)"
  by (induction xs arbitrary: s) (simp_all add: sys_inv_step)

lemma handler_one_timer_per_user:
  assumes "h_timers s = Map.empty" "h_pending s = []"
  shows "length (handler_armed_for k (sys_run env xs s)) \<le> 1"
proof -
  have "sys_inv s" using assms by (simp add: sys_inv_def)
  then show ?thesis by (intro sys_inv_one sys_inv_run)
qed


lemma grace_inv_one:
  assumes "grace_inv g"
  shows "length (armed_for userId g) \<le> 1"
proof (rule one_of_a_kind [where f = t_handle and c = "ti_timer (the (g_timers g userId))"])
  show "distinct (map t_handle (armed_for userId g))"
    using assms by (simp add: grace_inv_def armed_for_def distinct_map_filter)
  show "\<And>x. x \<in> set (armed_for userId g) \<Longrightarrow> t_handle x = ti_timer (the (g_timers g userId))"
    using assms by (auto simp: grace_inv_def armed_for_def)
qed

lemma grace_inv_start:
  assumes "grace_inv g"
  shows "grace_inv (addDisconnectGraceTimer userId username roomId duration g)"
proof (cases "g_timers g userId")
  case (Some i)
  then show ?thesis using assms by (simp add: addDisconnectGraceTimer_def)
next
  case None
  have m: "map_option ti_timer (g_timers g (gc_userId (t_closure t))) = Some (t_handle t)"
    if "t \<in> set (g_pending g)" for t
    using assms that by (simp add: grace_inv_def)
  have other: "gc_userId (t_closure t) \<noteq> userId" if "t \<in> set (g_pending g)" for t
    using m [OF that] None by auto
  have lt: "t_handle t < g_next g" if "t \<in> set (g_pending g)" for t
    using assms that by (simp add: grace_inv_def)
  have fresh: "g_next g \<notin> set (map t_handle (g_pending g))"
  proof
    assume "g_next g \<in> set (map t_handle (g_pending g))"
    then obtain t where "t \<in> set (g_pending g)" "t_handle t = g_next g" by auto
    with lt [of t] show False by auto
  qed
  have d: "distinct (map t_handle (g_pending g))" "g_running g = []"
    using assms by (simp_all add: grace_inv_def)
  show ?thesis
    using None other m lt fresh d
    by (auto simp: addDisconnectGraceTimer_def Let_def grace_inv_def less_Suc_eq)
qed

lemma grace_inv_cancel:
  assumes "grace_inv g"
  shows "grace_inv (snd (cancelDisconnectTimer userId g))"
proof (cases "g_timers g userId")
  case None
  then show ?thesis using assms by (simp add: cancelDisconnectTimer_def)
next
  case (Some i)
  have m: "map_option ti_timer (g_timers g (gc_userId (t_closure t))) = Some (t_handle t)"
    if "t \<in> set (g_pending g)" for t
    using assms that by (simp add: grace_inv_def)
  have "gc_userId (t_closure t) \<noteq> userId"
    if "t \<in> set (g_pending g)" "t_handle t \<noteq> ti_timer i" for t
    using m [OF that(1)] that(2) Some by auto
  then show ?thesis
    using assms Some
    by (auto simp: cancelDisconnectTimer_def grace_inv_def clearTimeout_def distinct_map_filter)
qed

lemma grace_inv_expiry:
  assumes "grace_inv g"
  shows "grace_inv (expiry_resume env (expiry_start h g))"
proof (cases "find (\<lambda>t. t_handle t = h) (g_pending g)")
  case None
  then show ?thesis using assms by (simp add: expiry_start_def expiry_resume_def grace_inv_def)
next
  case (Some t)
  then have tin: "t \<in> set (g_pending g)" and th: "t_handle t = h" by (auto dest: find_handle)
  show ?thesis
  proof (cases "g_now g < t_due t")
    case True
    then show ?thesis using Some assms by (simp add: expiry_start_def expiry_resume_def grace_inv_def)
  next
    case False
    define g1 where "g1 = g\<lparr>g_pending := clearTimeout h (g_pending g), g_running := []\<rparr>"
    have m: "map_option ti_timer (g_timers g (gc_userId (t_closure x))) = Some (t_handle x)"
      if "x \<in> set (g_pending g)" for x
      using assms that by (simp add: grace_inv_def)
    have other: "gc_userId (t_closure x) \<noteq> gc_userId (t_closure t)"
      if "x \<in> set (g_pending g)" "t_handle x \<noteq> h" for x
      using m [OF that(1)] m [OF tin] th that(2) by auto
    have i1: "grace_inv g1"
      using assms by (auto simp: g1_def grace_inv_def clearTimeout_def distinct_map_filter)
    have p1: "g_pending g1 = clearTimeout h (g_pending g)" "g_timers g1 = g_timers g"
      by (simp_all add: g1_def)
    have body: "grace_inv (expiry_body env (t_closure t) g1)"
      using i1 other
      by (auto simp: expiry_body_def grace_inv_def p1 clearTimeout_def split: prod.splits sum.splits)
    have "expiry_resume env (expiry_start h g) = expiry_body env (t_closure t) g1"
      using Some False assms
      by (simp add: expiry_start_def expiry_resume_def g1_def grace_inv_def)
    with body show ?thesis by simp
  qed
qed

lemma grace_inv_elapse: "grace_inv g \<Longrightarrow> grace_inv (g\<lparr>g_now := g_now g + d\<rparr>)"
  by (simp add: grace_inv_def)

lemma grace_inv_step:
  assumes "grace_inv g" and "\<forall>h. x \<noteq> Fire h" and "x \<noteq> Resume"
  shows "grace_inv (grace_step env x g)"
  using assms by (cases x) (simp_all add: grace_inv_start grace_inv_cancel grace_inv_elapse)

lemma unsuspended_cases:
  assumes "unsuspended (x # xs)"
  shows "((\<forall>h. x \<noteq> Fire h) \<and> x \<noteq> Resume \<and> unsuspended xs)
       \<or> (\<exists>h ys. x = Fire h \<and> xs = Resume # ys \<and> unsuspended ys)"
proof (cases x)
  case (Fire h)
  show ?thesis
  proof (cases xs)
    case Nil
    with Fire assms show ?thesis by simp
  next
    case (Cons y ys)
    with Fire assms show ?thesis by (cases y) simp_all
  qed
next
  case Resume
  with assms show ?thesis by simp
qed (use assms in simp_all)

lemma grace_inv_run:
  "unsuspended xs \<Longrightarrow> grace_inv g \<Longrightarrow> grace_inv (grace_run env xs g)"
proof (induction xs arbitrary: g rule: length_induct)
  case (1 xs)
  show ?case
  proof (cases xs)
    case Nil
    with 1 show ?thesis by simp
  next
    case (Cons x rest)
    from unsuspended_cases [of x rest] 1(2) Cons
    consider (plain) "\<forall>h. x \<noteq> Fire h" "x \<noteq> Resume" "unsuspended rest"
      | (expiry) h ys where "x = Fire h" "rest = Resume # ys" "unsuspended ys"
      by auto
    then show ?thesis
    proof cases
      case plain
      have "grace_inv (grace_step env x g)"
        using 1(3) plain(1,2) by (rule grace_inv_step)
      moreover have "length rest < length xs" using Cons by simp
      ultimately have "grace_inv (grace_run env rest (grace_step env x g))"
        using 1(1) plain(3) by blast
      then show ?thesis using Cons by simp
    next
      case expiry
      have "grace_inv (expiry_resume env (expiry_start h g))"
        using 1(3) by (rule grace_inv_expiry)
      moreover have "length ys < length xs" using Cons expiry by simp
      ultimately have "grace_inv (grace_run env ys (expiry_resume env (expiry_start h g)))"
        using 1(1) expiry(3) by blast
      then show ?thesis using Cons expiry by simp
    qed
  qed
qed

lemma grace_one_timer_per_user:
  assumes "unsuspended xs"
  shows "length (armed_for userId (grace_run env xs (grace_init r))) \<le> 1"
proof -
  have "grace_inv (grace_init r)" by (simp add: grace_inv_def grace_init_def)
  with assms show ?thesis by (intro grace_inv_one grace_inv_run)
qed


section \<open>One timer for a user: where it fails\<close>

text \<open>
  C2 on the code. Two timeouts end up armed for one user. In the AbortController
  variant, a start does not look at the map: two starts for user 7 leave two armed
  timeouts. In the grace-period module the expiry callback deletes the user's entry
  after its awaits: Alice's timer fires and its callback is suspended; she reconnects
  (cancel) and is lost again (start); the callback resumes and deletes the new entry;
  the next start finds no entry and arms a second timeout beside the one still armed.
\<close>

theorem two_timers_armed_for_one_user:
  "length (abort_armed_for (JNum 7)
      (abort_addDisconnectGraceTimer (JNum 7) 1800000
         (abort_addDisconnectGraceTimer (JNum 7) 1800000 abort_init))) = 2
   \<and> length (armed_for (JNum 7)
      (grace_run demo_grace_env
         [Start (JNum 7) (JStr ''alice'') (JStr ''r1''), Elapse 1800000, Fire 0, Cancel (JNum 7),
          Start (JNum 7) (JStr ''alice'') (JStr ''r1''), Resume,
          Start (JNum 7) (JStr ''alice'') (JStr ''r1'')]
         (grace_init demo_store))) = 2"
  by (simp add: abort_armed_for_def abort_addDisconnectGraceTimer_def abort_init_def Let_def
      armed_for_def grace_init_def addDisconnectGraceTimer_def cancelDisconnectTimer_def
      expiry_start_def expiry_resume_def expiry_body_def clearTimeout_def demo_grace_env_def
      DISCONNECT_GRACE_PERIOD_def)


end
